theory Spec2Isabelle
  imports Main "HOL-Library.Char_ord" "HOL-Library.List_Lexorder"
begin

section \<open>Wire values: JSON documents and HTTP bodies\<close>

text \<open>
  The four services exchange JSON over HTTP. A Go \<open>string\<close> is a byte sequence, here a
  \<open>string\<close> (a list of 8-bit characters, UTF-8 for text beyond ASCII). A Go \<open>int\<close> is
  64 bits wide; no service computes with the integers it carries, so they are \<open>int\<close>
  with the range check of the decoder written out (\<open>in_int64\<close>).

  A JSON document is kept as a value tree. Number literals are integer literals of any
  size; an object keeps its members in document order, duplicates included.
\<close>

datatype json =
    JNull
  | JBool bool
  | JNum int
  | JStr string
  | JArr "json list"
  | JObj "(string \<times> json) list"

text \<open>
  A body is what a \<open>json.Decoder\<close> finds on the stream: either the text some handler
  wrote with \<open>http.Error\<close> or \<open>fmt\<close> (kept as bytes), or a JSON document written by a
  \<open>json.Encoder\<close> or \<open>json.Marshal\<close> (kept as the value).
\<close>

datatype body = Plain string | Encoded json

definition isSpace :: "char \<Rightarrow> bool" where
  "isSpace c \<longleftrightarrow> c = CHR '' '' \<or> c = CHR 0x09 \<or> c = CHR 0x0A \<or> c = CHR 0x0D"

definition isDigit :: "char \<Rightarrow> bool" where
  "isDigit c \<longleftrightarrow> CHR ''0'' \<le> c \<and> c \<le> CHR ''9''"

definition beginsValue :: "char \<Rightarrow> bool" where
  "beginsValue c \<longleftrightarrow>
     c = CHR ''{'' \<or> c = CHR ''['' \<or> c = CHR 0x22 \<or> c = CHR ''-'' \<or> isDigit c \<or>
     c = CHR ''t'' \<or> c = CHR ''f'' \<or> c = CHR ''n''"

text \<open>
  \<open>json.NewDecoder(r).Decode\<close>, first stage (bytes to value). The scanner of
  \<open>encoding/json\<close> skips white space and fails with a syntax error unless the next byte
  can begin a value; an exhausted stream is \<open>io.EOF\<close>. What the library's parser makes
  of a text that does begin like a value is the parameter \<open>parse\<close>: the parser is not
  part of this repository.
\<close>

definition decodeBody :: "(string \<Rightarrow> json option) \<Rightarrow> body \<Rightarrow> json option" where
  "decodeBody parse b =
     (case b of
        Encoded j \<Rightarrow> Some j
      | Plain s \<Rightarrow>
          (case dropWhile isSpace s of
             [] \<Rightarrow> None
           | c # _ \<Rightarrow> if beginsValue c then parse s else None))"

subsection \<open>Decoding into Go structs\<close>

definition in_int64 :: "int \<Rightarrow> bool" where
  "in_int64 n \<longleftrightarrow> - (2 ^ 63) \<le> n \<and> n < 2 ^ 63"

definition toUpperASCII :: "char \<Rightarrow> char" where
  "toUpperASCII c =
     (if CHR ''a'' \<le> c \<and> c \<le> CHR ''z'' then char_of (of_char c - (32::nat)) else c)"

text \<open>
  Member names are matched to struct fields exactly or, failing that, under Unicode
  simple case folding. Every field name of this repository is ASCII, and the only
  non-ASCII runes that fold to an ASCII letter are U+017F (bytes C5 BF, folds to S) and
  U+212A (bytes E2 84 AA, folds to K), so folding a member name is ASCII upper-casing
  plus these two.
\<close>

fun foldName :: "string \<Rightarrow> string" where
  "foldName [] = []"
| "foldName (c # cs) =
     (case cs of
        [] \<Rightarrow> [toUpperASCII c]
      | d # ds \<Rightarrow>
          if c = CHR 0xC5 \<and> d = CHR 0xBF then CHR ''S'' # foldName ds
          else (case ds of
                  [] \<Rightarrow> toUpperASCII c # foldName cs
                | e # es \<Rightarrow>
                    if c = CHR 0xE2 \<and> d = CHR 0x84 \<and> e = CHR 0xAA then CHR ''K'' # foldName es
                    else toUpperASCII c # foldName cs))"

text \<open>
  One member into one field. A JSON \<open>null\<close> leaves a non-pointer field as it is and
  sets a pointer to \<open>nil\<close>; a value of the wrong kind, or an integer outside the range of
  \<open>int\<close>, is an \<open>UnmarshalTypeError\<close> (the decoder goes on but \<open>Decode\<close> returns the
  error, and every handler here returns on it).
\<close>

definition int_field :: "json \<Rightarrow> int \<Rightarrow> int option" where
  "int_field v cur =
     (case v of JNull \<Rightarrow> Some cur
      | JNum n \<Rightarrow> if in_int64 n then Some n else None
      | _ \<Rightarrow> None)"

definition string_field :: "json \<Rightarrow> string \<Rightarrow> string option" where
  "string_field v cur =
     (case v of JNull \<Rightarrow> Some cur | JStr s \<Rightarrow> Some s | _ \<Rightarrow> None)"

definition ptr_int_field :: "json \<Rightarrow> int option option" where
  "ptr_int_field v =
     (case v of JNull \<Rightarrow> Some None
      | JNum n \<Rightarrow> if in_int64 n then Some (Some n) else None
      | _ \<Rightarrow> None)"

fun decode_members ::
  "(string \<Rightarrow> json \<Rightarrow> 'a \<Rightarrow> 'a option) \<Rightarrow> (string \<times> json) list \<Rightarrow> 'a \<Rightarrow> 'a option" where
  "decode_members setf [] a = Some a"
| "decode_members setf ((k, v) # kvs) a =
     (case setf (foldName k) v a of
        None \<Rightarrow> None
      | Some a' \<Rightarrow> decode_members setf kvs a')"

text \<open>
  A struct is decoded from an object, member by member in document order (a later
  duplicate overwrites); \<open>null\<close> is accepted and changes nothing; anything else is an
  \<open>UnmarshalTypeError\<close>.
\<close>

definition decode_struct ::
  "(string \<Rightarrow> json \<Rightarrow> 'a \<Rightarrow> 'a option) \<Rightarrow> 'a \<Rightarrow> json \<Rightarrow> 'a option" where
  "decode_struct setf zero j =
     (case j of JNull \<Rightarrow> Some zero
      | JObj kvs \<Rightarrow> decode_members setf kvs zero
      | _ \<Rightarrow> None)"

subsection \<open>Decoding into \<open>interface{}\<close>\<close>

text \<open>
  A number decoded into \<open>interface{}\<close> becomes a \<open>float64\<close>: the nearest double, ties to
  even, and an error when it is out of range. On integers that is rounding to 53
  significant bits.
\<close>

fun bitlen :: "nat \<Rightarrow> nat" where
  "bitlen n = (if n = 0 then 0 else Suc (bitlen (n div 2)))"

declare bitlen.simps [simp del]

definition round53 :: "nat \<Rightarrow> nat" where
  "round53 m =
     (if bitlen m \<le> 53 then m
      else let e = bitlen m - 53; q = m div 2 ^ e; r = m mod 2 ^ e; h = 2 ^ (e - 1)
           in (if h < r \<or> (r = h \<and> odd q) then q + 1 else q) * 2 ^ e)"

definition float64 :: "int \<Rightarrow> int" where
  "float64 n = sgn n * int (round53 (nat \<bar>n\<bar>))"

definition float64_ok :: "int \<Rightarrow> bool" where
  "float64_ok n \<longleftrightarrow> round53 (nat \<bar>n\<bar>) < 2 ^ 1024"

text \<open>
  An object decoded into \<open>interface{}\<close> becomes a \<open>map[string]interface{}\<close>: one entry per
  name, the last duplicate winning; \<open>json.Encoder\<close> writes a map with its keys sorted.
\<close>

fun insert_member :: "string \<Rightarrow> json \<Rightarrow> (string \<times> json) list \<Rightarrow> (string \<times> json) list" where
  "insert_member k v [] = [(k, v)]"
| "insert_member k v ((k', v') # kvs) =
     (if k = k' then (k, v) # kvs
      else if k < k' then (k, v) # (k', v') # kvs
      else (k', v') # insert_member k v kvs)"

definition as_map :: "(string \<times> json) list \<Rightarrow> (string \<times> json) list" where
  "as_map kvs = foldl (\<lambda>m kv. insert_member (fst kv) (snd kv) m) [] kvs"

primrec representable :: "json \<Rightarrow> bool" where
  "representable JNull = True"
| "representable (JBool b) = True"
| "representable (JNum n) = float64_ok n"
| "representable (JStr s) = True"
| "representable (JArr xs) = list_all representable xs"
| "representable (JObj kvs) = list_all (pred_prod (\<lambda>k. True) representable) kvs"

primrec generic :: "json \<Rightarrow> json" where
  "generic JNull = JNull"
| "generic (JBool b) = JBool b"
| "generic (JNum n) = JNum (float64 n)"
| "generic (JStr s) = JStr s"
| "generic (JArr xs) = JArr (map generic xs)"
| "generic (JObj kvs) = JObj (as_map (map (map_prod (\<lambda>k. k) generic) kvs))"

text \<open>The value of an \<open>interface{}\<close> field: \<open>None\<close> is the nil interface.\<close>

definition interface_field :: "json \<Rightarrow> json option option" where
  "interface_field v =
     (case v of JNull \<Rightarrow> Some None
      | _ \<Rightarrow> if representable v then Some (Some (generic v)) else None)"

subsection \<open>\<open>strconv.Atoi\<close> and \<open>%d\<close>\<close>

definition digit_val :: "char \<Rightarrow> int" where
  "digit_val c = int (of_char c) - 48"

definition digit_char :: "nat \<Rightarrow> char" where
  "digit_char d = char_of (48 + d)"

text \<open>
  \<open>strconv.Atoi\<close>: an optional sign, then at least one decimal digit and nothing else;
  a value outside \<open>int\<close> is a range error. \<open>None\<close> is \<open>err != nil\<close>.
\<close>

definition Atoi :: "string \<Rightarrow> int option" where
  "Atoi s =
     (let neg = (take 1 s = ''-'');
          ds = (if take 1 s = ''-'' \<or> take 1 s = ''+'' then drop 1 s else s)
      in if ds = [] \<or> \<not> list_all isDigit ds then None
         else let n = foldl (\<lambda>a c. 10 * a + digit_val c) 0 ds;
                  v = (if neg then - n else n)
              in if in_int64 v then Some v else None)"


fun digits :: "nat \<Rightarrow> string" where
  "digits m = (if m < 10 then [digit_char m] else digits (m div 10) @ [digit_char (m mod 10)])"

declare digits.simps [simp del]

definition itoa :: "int \<Rightarrow> string" where
  "itoa n = (if n < 0 then CHR ''-'' # digits (nat (- n)) else digits (nat n))"


section \<open>HTTP messages\<close>

record http_response =
  rsp_status :: nat
  rsp_ctype :: string
  rsp_body :: body

text \<open>
  \<open>http.Error(w, msg, code)\<close> writes a plain-text response: the content type
  \<open>text/plain; charset=utf-8\<close>, the status code, and \<open>msg\<close> followed by a newline.
\<close>

definition http_Error :: "string \<Rightarrow> nat \<Rightarrow> http_response" where
  "http_Error msg code =
     \<lparr>rsp_status = code, rsp_ctype = ''text/plain; charset=utf-8'',
      rsp_body = Plain (msg @ [CHR 0x0A])\<rparr>"

text \<open>
  \<open>w.Header().Set("Content-Type", "application/json")\<close> followed by
  \<open>json.NewEncoder(w).Encode(v)\<close>: status 200 (no \<open>WriteHeader\<close> call precedes the first
  write) and the encoding of \<open>v\<close>.
\<close>

definition write_json :: "json \<Rightarrow> http_response" where
  "write_json v = \<lparr>rsp_status = 200, rsp_ctype = ''application/json'', rsp_body = Encoded v\<rparr>"

text \<open>
  Headers. \<open>http.Header\<close> keeps its keys in canonical form (first letter and every letter
  after a hyphen in upper case, the rest in lower case), and \<open>Get\<close> and \<open>Set\<close>
  canonicalise the key they are given. The keys used by this repository consist of
  letters and hyphens only.
\<close>

definition toLowerASCII :: "char \<Rightarrow> char" where
  "toLowerASCII c =
     (if CHR ''A'' \<le> c \<and> c \<le> CHR ''Z'' then char_of (of_char c + (32::nat)) else c)"

fun canonical :: "bool \<Rightarrow> string \<Rightarrow> string" where
  "canonical up [] = []"
| "canonical up (c # cs) =
     (if up then toUpperASCII c else toLowerASCII c) # canonical (c = CHR ''-'') cs"

definition CanonicalHeaderKey :: "string \<Rightarrow> string" where
  "CanonicalHeaderKey k = canonical True k"

type_synonym header = "(string \<times> string) list"

definition Header_Get :: "header \<Rightarrow> string \<Rightarrow> string" where
  "Header_Get h k = (case map_of h (CanonicalHeaderKey k) of None \<Rightarrow> [] | Some v \<Rightarrow> v)"

definition Header_Set :: "string \<Rightarrow> string \<Rightarrow> header \<Rightarrow> header" where
  "Header_Set k v h =
     filter (\<lambda>kv. fst kv \<noteq> CanonicalHeaderKey k) h @ [(CanonicalHeaderKey k, v)]"

text \<open>
  An inbound request, as far as the handlers read it: the header, the \<open>{id}\<close> segment of
  the path (\<open>chi.URLParam\<close>), the query parameters \<open>page\<close>, \<open>page_size\<close> and \<open>search\<close>
  (empty when absent), and the body.
\<close>

record request =
  Header :: header
  URLParam_id :: string
  Query_page :: string
  Query_page_size :: string
  Query_search :: string
  Body :: body

text \<open>An outbound request of the gateway's \<open>http.Client\<close>.\<close>

record out_request =
  Method :: string
  URL :: string
  OutHeader :: header
  OutBody :: body

text \<open>
  The network, as the gateway's client sees it: a call either fails at transport level
  (\<open>err != nil\<close>: \<open>None\<close>) or returns a response, and it may change the state \<open>'w\<close> of
  the world behind it either way. The gateway's own state is the list of calls it has
  issued so far, kept beside the world.
\<close>

type_synonym 'w net = "out_request \<Rightarrow> 'w \<Rightarrow> http_response option \<times> 'w"

type_synonym 'w gstate = "out_request list \<times> 'w"

definition client_Do ::
  "'w net \<Rightarrow> out_request \<Rightarrow> 'w gstate \<Rightarrow> http_response option \<times> 'w gstate" where
  "client_Do net rq s = (case net rq (snd s) of (r, w') \<Rightarrow> (r, (fst s @ [rq], w')))"

text \<open>\<open>client.Get(url)\<close> sends a \<open>GET\<close> with no header of the caller's and no body.\<close>

definition get_request :: "string \<Rightarrow> out_request" where
  "get_request url = \<lparr>Method = ''GET'', URL = url, OutHeader = [], OutBody = Plain []\<rparr>"

definition client_Get ::
  "'w net \<Rightarrow> string \<Rightarrow> 'w gstate \<Rightarrow> http_response option \<times> 'w gstate" where
  "client_Get net url s = client_Do net (get_request url) s"

section \<open>The types shared by the services\<close>

record Pagination =
  Page :: int
  PageSize :: int
  Total :: int
  TotalPages :: int

text \<open>
  The envelope. \<open>Data\<close> is an \<open>interface{}\<close>: \<open>None\<close> is the nil interface, \<open>Some j\<close>
  a Go value whose encoding is \<open>j\<close>.
\<close>

record Response =
  Status :: string
  Data :: "json option"
  Error :: string
  Pagination :: "Pagination option"

record NewsItem =
  ID :: int
  Title :: string
  Content :: string
  Date :: string

record Comment =
  cID :: int
  cNewsID :: int
  cParentID :: "int option"
  cText :: string
  cCreatedAt :: string

record CommentRequest =
  NewsID :: int
  ParentID :: "int option"
  Text :: string

record CheckRequest =
  chkText :: string

subsection \<open>Encoding (struct tags: \<open>omitempty\<close> drops a nil pointer, a nil interface, an empty string)\<close>

definition encodePagination :: "Pagination \<Rightarrow> json" where
  "encodePagination p =
     JObj [(''page'', JNum (Page p)), (''page_size'', JNum (PageSize p)),
           (''total'', JNum (Total p)), (''total_pages'', JNum (TotalPages p))]"

definition encodeResponse :: "Response \<Rightarrow> json" where
  "encodeResponse r =
     JObj ([(''status'', JStr (Status r))]
           @ (case Data r of None \<Rightarrow> [] | Some d \<Rightarrow> [(''data'', d)])
           @ (if Error r = [] then [] else [(''error'', JStr (Error r))])
           @ (case Pagination r of None \<Rightarrow> [] | Some p \<Rightarrow> [(''pagination'', encodePagination p)]))"

definition encodeNewsItem :: "NewsItem \<Rightarrow> json" where
  "encodeNewsItem n =
     JObj [(''id'', JNum (ID n)), (''title'', JStr (Title n)),
           (''content'', JStr (Content n)), (''date'', JStr (Date n))]"

definition encodeComment :: "Comment \<Rightarrow> json" where
  "encodeComment c =
     JObj ([(''id'', JNum (cID c)), (''news_id'', JNum (cNewsID c))]
           @ (case cParentID c of None \<Rightarrow> [] | Some p \<Rightarrow> [(''parent_id'', JNum p)])
           @ [(''text'', JStr (cText c)), (''created_at'', JStr (cCreatedAt c))])"

text \<open>A nil slice is encoded as \<open>null\<close>, any other slice as an array.\<close>

definition encodeComments :: "Comment list \<Rightarrow> json" where
  "encodeComments cs = (if cs = [] then JNull else JArr (map encodeComment cs))"

definition encodeCommentRequest :: "CommentRequest \<Rightarrow> json" where
  "encodeCommentRequest r =
     JObj ([(''news_id'', JNum (NewsID r))]
           @ (case ParentID r of None \<Rightarrow> [] | Some p \<Rightarrow> [(''parent_id'', JNum p)])
           @ [(''text'', JStr (Text r))])"

subsection \<open>Decoding\<close>

definition pagination_member :: "string \<Rightarrow> json \<Rightarrow> Pagination \<Rightarrow> Pagination option" where
  "pagination_member f v p =
     (if f = ''PAGE'' then map_option (\<lambda>n. p\<lparr>Page := n\<rparr>) (int_field v (Page p))
      else if f = ''PAGE_SIZE'' then map_option (\<lambda>n. p\<lparr>PageSize := n\<rparr>) (int_field v (PageSize p))
      else if f = ''TOTAL'' then map_option (\<lambda>n. p\<lparr>Total := n\<rparr>) (int_field v (Total p))
      else if f = ''TOTAL_PAGES'' then
        map_option (\<lambda>n. p\<lparr>TotalPages := n\<rparr>) (int_field v (TotalPages p))
      else Some p)"

definition response_member :: "string \<Rightarrow> json \<Rightarrow> Response \<Rightarrow> Response option" where
  "response_member f v r =
     (if f = ''STATUS'' then map_option (\<lambda>s. r\<lparr>Status := s\<rparr>) (string_field v (Status r))
      else if f = ''DATA'' then map_option (\<lambda>d. r\<lparr>Data := d\<rparr>) (interface_field v)
      else if f = ''ERROR'' then map_option (\<lambda>s. r\<lparr>Error := s\<rparr>) (string_field v (Error r))
      else if f = ''PAGINATION'' then
        (case v of
           JNull \<Rightarrow> Some (r\<lparr>Pagination := None\<rparr>)
         | _ \<Rightarrow>
             map_option (\<lambda>p. r\<lparr>Pagination := Some p\<rparr>)
               (decode_struct pagination_member
                  (case Pagination r of
                     None \<Rightarrow> \<lparr>Page = 0, PageSize = 0, Total = 0, TotalPages = 0\<rparr>
                   | Some p \<Rightarrow> p) v))
      else Some r)"

definition decodeResponse :: "(string \<Rightarrow> json option) \<Rightarrow> body \<Rightarrow> Response option" where
  "decodeResponse parse b =
     (case decodeBody parse b of
        None \<Rightarrow> None
      | Some j \<Rightarrow>
          decode_struct response_member
            \<lparr>Status = [], Data = None, Error = [], Pagination = None\<rparr> j)"

definition newsitem_member :: "string \<Rightarrow> json \<Rightarrow> NewsItem \<Rightarrow> NewsItem option" where
  "newsitem_member f v n =
     (if f = ''ID'' then map_option (\<lambda>i. n\<lparr>ID := i\<rparr>) (int_field v (ID n))
      else if f = ''TITLE'' then map_option (\<lambda>s. n\<lparr>Title := s\<rparr>) (string_field v (Title n))
      else if f = ''CONTENT'' then map_option (\<lambda>s. n\<lparr>Content := s\<rparr>) (string_field v (Content n))
      else if f = ''DATE'' then map_option (\<lambda>s. n\<lparr>Date := s\<rparr>) (string_field v (Date n))
      else Some n)"

definition decodeNewsItem :: "(string \<Rightarrow> json option) \<Rightarrow> body \<Rightarrow> NewsItem option" where
  "decodeNewsItem parse b =
     (case decodeBody parse b of
        None \<Rightarrow> None
      | Some j \<Rightarrow> decode_struct newsitem_member \<lparr>ID = 0, Title = [], Content = [], Date = []\<rparr> j)"

definition commentrequest_member ::
  "string \<Rightarrow> json \<Rightarrow> CommentRequest \<Rightarrow> CommentRequest option" where
  "commentrequest_member f v r =
     (if f = ''NEWS_ID'' then map_option (\<lambda>n. r\<lparr>NewsID := n\<rparr>) (int_field v (NewsID r))
      else if f = ''PARENT_ID'' then map_option (\<lambda>p. r\<lparr>ParentID := p\<rparr>) (ptr_int_field v)
      else if f = ''TEXT'' then map_option (\<lambda>s. r\<lparr>Text := s\<rparr>) (string_field v (Text r))
      else Some r)"

definition decodeCommentRequest ::
  "(string \<Rightarrow> json option) \<Rightarrow> body \<Rightarrow> CommentRequest option" where
  "decodeCommentRequest parse b =
     (case decodeBody parse b of
        None \<Rightarrow> None
      | Some j \<Rightarrow> decode_struct commentrequest_member \<lparr>NewsID = 0, ParentID = None, Text = []\<rparr> j)"

definition checkrequest_member :: "string \<Rightarrow> json \<Rightarrow> CheckRequest \<Rightarrow> CheckRequest option" where
  "checkrequest_member f v r =
     (if f = ''TEXT'' then map_option (\<lambda>s. r\<lparr>chkText := s\<rparr>) (string_field v (chkText r))
      else Some r)"

definition decodeCheckRequest :: "(string \<Rightarrow> json option) \<Rightarrow> body \<Rightarrow> CheckRequest option" where
  "decodeCheckRequest parse b =
     (case decodeBody parse b of
        None \<Rightarrow> None
      | Some j \<Rightarrow> decode_struct checkrequest_member \<lparr>chkText = []\<rparr> j)"


section \<open>The API gateway\<close>

record Config =
  Port :: string
  CommentServiceURL :: string
  CensorServiceURL :: string
  NewsAggregatorURL :: string

text \<open>The defaults of \<open>main\<close>, used when the environment sets nothing.\<close>

definition defaultConfig :: Config where
  "defaultConfig =
     \<lparr>Port = ''8080'',
      CommentServiceURL = ''http://comment-service:8081'',
      CensorServiceURL = ''http://censor-service:8082'',
      NewsAggregatorURL = ''http://news-aggregator:8083''\<rparr>"

text \<open>
  \<open>requestIDMiddleware\<close>: the request id is the inbound \<open>X-Request-ID\<close> header or, when
  that is absent or empty, the string of a new UUID (\<open>fresh\<close>, drawn by the \<open>uuid\<close>
  package). The result is what the handlers read back as
  \<open>r.Context().Value("request_id")\<close>.
\<close>

definition requestIDMiddleware :: "string \<Rightarrow> header \<Rightarrow> string" where
  "requestIDMiddleware fresh h =
     (let requestID = Header_Get h ''X-Request-ID''
      in if requestID = [] then fresh else requestID)"

text \<open>
  The two outbound requests of \<open>createCommentHandler\<close>. The source discards the error
  of \<open>http.NewRequest\<close>; it is nil for every URL that parses, which the configured base
  URLs are taken to do.
\<close>

definition censorReq :: "Config \<Rightarrow> string \<Rightarrow> CommentRequest \<Rightarrow> out_request" where
  "censorReq config rid req =
     \<lparr>Method = ''POST'', URL = CensorServiceURL config @ ''/check'',
      OutHeader = Header_Set ''X-Request-ID'' rid (Header_Set ''Content-Type'' ''application/json'' []),
      OutBody = Encoded (JObj [(''text'', JStr (Text req))])\<rparr>"

definition commentReq :: "Config \<Rightarrow> string \<Rightarrow> CommentRequest \<Rightarrow> out_request" where
  "commentReq config rid req =
     \<lparr>Method = ''POST'', URL = CommentServiceURL config @ ''/comments'',
      OutHeader = Header_Set ''X-Request-ID'' rid (Header_Set ''Content-Type'' ''application/json'' []),
      OutBody = Encoded (encodeCommentRequest req)\<rparr>"

text \<open>\<open>createCommentHandler\<close> of the gateway (\<open>POST /comment\<close>).\<close>

definition gateway_createCommentHandler ::
  "Config \<Rightarrow> (string \<Rightarrow> json option) \<Rightarrow> 'w net \<Rightarrow> string \<Rightarrow> body \<Rightarrow> 'w gstate \<Rightarrow>
   http_response \<times> 'w gstate" where
  "gateway_createCommentHandler config parse net rid b s =
     (case decodeCommentRequest parse b of
        None \<Rightarrow> (http_Error ''Invalid request body'' 400, s)
      | Some req \<Rightarrow>
          if Text req = [] then (http_Error ''Comment text is required'' 400, s)
          else if NewsID req \<le> 0 then (http_Error ''Valid news ID is required'' 400, s)
          else
            (case client_Do net (censorReq config rid req) s of
               (None, s1) \<Rightarrow>
                 (http_Error ''Failed to check comment with censor service'' 500, s1)
             | (Some censorResp, s1) \<Rightarrow>
                 if rsp_status censorResp \<noteq> 200 then
                   (http_Error ''Comment contains prohibited content'' 400, s1)
                 else
                   (case client_Do net (commentReq config rid req) s1 of
                      (None, s2) \<Rightarrow> (http_Error ''Failed to save comment'' 500, s2)
                    | (Some commentResp, s2) \<Rightarrow>
                        if rsp_status commentResp \<noteq> 200 then
                          (http_Error ''Failed to save comment'' 500, s2)
                        else
                          (case decodeResponse parse (rsp_body commentResp) of
                             None \<Rightarrow> (http_Error ''Failed to decode comment response'' 500, s2)
                           | Some commentResponse \<Rightarrow>
                               (write_json (encodeResponse commentResponse), s2)))))"

text \<open>
  \<open>getNewsByIDHandler\<close> of the gateway (\<open>GET /news/{id}\<close>). Both fetches use
  \<open>client.Get\<close>, which sends no header of the handler's. The status codes of the two
  responses are not inspected: a response counts as good when its body decodes.
\<close>

definition gateway_getNewsByIDHandler ::
  "Config \<Rightarrow> (string \<Rightarrow> json option) \<Rightarrow> 'w net \<Rightarrow> string \<Rightarrow> string \<Rightarrow> 'w gstate \<Rightarrow>
   http_response \<times> 'w gstate" where
  "gateway_getNewsByIDHandler config parse net rid newsID s =
     (case Atoi newsID of
        None \<Rightarrow> (http_Error ''Invalid news ID'' 400, s)
      | Some newsIDInt \<Rightarrow>
          (case client_Get net (NewsAggregatorURL config @ ''/news/'' @ newsID) s of
             (None, s1) \<Rightarrow> (http_Error ''Failed to fetch news'' 500, s1)
           | (Some newsResp, s1) \<Rightarrow>
               (case decodeNewsItem parse (rsp_body newsResp) of
                  None \<Rightarrow> (http_Error ''Failed to decode news response'' 500, s1)
                | Some newsItem \<Rightarrow>
                    (case client_Get net
                            (CommentServiceURL config @ ''/comments?news_id='' @ itoa newsIDInt) s1 of
                       (None, s2) \<Rightarrow> (http_Error ''Failed to fetch comments'' 500, s2)
                     | (Some commentsResp, s2) \<Rightarrow>
                         (case decodeResponse parse (rsp_body commentsResp) of
                            None \<Rightarrow> (http_Error ''Failed to decode comments response'' 500, s2)
                          | Some commentsResponse \<Rightarrow>
                              (write_json
                                 (encodeResponse
                                    \<lparr>Status = ''success'',
                                     Data = Some (JObj
                                       [(''comments'',
                                           (case Data commentsResponse of None \<Rightarrow> JNull | Some d \<Rightarrow> d)),
                                        (''news'', encodeNewsItem newsItem),
                                        (''request_id'', JStr rid)]),
                                     Error = [], Pagination = None\<rparr>), s2))))))"


text \<open>
  The endpoints: the middleware chain computes the request id and hands the request to
  the handler. A gateway request starts with no call issued. (The 30 second
  \<open>http.TimeoutHandler\<close> around the handlers is not part of this model.)
\<close>

definition POST_comment ::
  "Config \<Rightarrow> (string \<Rightarrow> json option) \<Rightarrow> string \<Rightarrow> 'w net \<Rightarrow> request \<Rightarrow> 'w \<Rightarrow>
   http_response \<times> 'w gstate" where
  "POST_comment config parse fresh net r w =
     gateway_createCommentHandler config parse net (requestIDMiddleware fresh (Header r)) (Body r)
       ([], w)"

definition GET_news_id ::
  "Config \<Rightarrow> (string \<Rightarrow> json option) \<Rightarrow> string \<Rightarrow> 'w net \<Rightarrow> request \<Rightarrow> 'w \<Rightarrow>
   http_response \<times> 'w gstate" where
  "GET_news_id config parse fresh net r w =
     gateway_getNewsByIDHandler config parse net (requestIDMiddleware fresh (Header r))
       (URLParam_id r) ([], w)"


text \<open>
  The persistence calls among the calls a gateway request issued: those to the URL of
  the comment service's \<open>POST /comments\<close>.
\<close>

definition persistence_calls :: "Config \<Rightarrow> out_request list \<Rightarrow> out_request list" where
  "persistence_calls config tr =
     filter (\<lambda>rq. URL rq = CommentServiceURL config @ ''/comments'') tr"

text \<open>
  Reading a response: a plain-text error as \<open>http.Error\<close> writes it, the member of a
  JSON object, and the \<open>data\<close> member of a JSON body.
\<close>

definition plain_text_error :: "http_response \<Rightarrow> bool" where
  "plain_text_error resp \<longleftrightarrow>
     rsp_ctype resp = ''text/plain; charset=utf-8'' \<and>
     (case rsp_body resp of Plain s \<Rightarrow> s \<noteq> [] \<and> last s = CHR 0x0A | Encoded j \<Rightarrow> False)"

fun jmember :: "string \<Rightarrow> json \<Rightarrow> json option" where
  "jmember k (JObj kvs) = map_of kvs k"
| "jmember k j = None"

definition payload :: "http_response \<Rightarrow> json option" where
  "payload resp = (case rsp_body resp of Encoded j \<Rightarrow> jmember ''data'' j | Plain s \<Rightarrow> None)"

section \<open>The censor service\<close>

text \<open>
  \<open>strings.ToLower\<close>: on a string of ASCII bytes, the letters A to Z are mapped to lower
  case; any other string is mapped rune by rune through the Unicode tables of the
  standard library, which is the parameter \<open>ulower\<close>.
\<close>

definition ToLower :: "(string \<Rightarrow> string) \<Rightarrow> string \<Rightarrow> string" where
  "ToLower ulower s =
     (if list_all (\<lambda>c. c < CHR 0x80) s then map toLowerASCII s else ulower s)"

text \<open>\<open>strings.Contains\<close>: \<open>sub\<close> occurs in \<open>s\<close> as a run of consecutive bytes.\<close>

fun Contains :: "string \<Rightarrow> string \<Rightarrow> bool" where
  "Contains [] sub = (sub = [])"
| "Contains (c # cs) sub = (take (length sub) (c # cs) = sub \<or> Contains cs sub)"

text \<open>
  The keys of the \<open>bannedWords\<close> map, as a list without repetition. The second word is
  the six Cyrillic letters of the source, in UTF-8.
\<close>

record CensorService =
  bannedWords :: "string list"

definition NewCensorService :: "(string \<Rightarrow> string) \<Rightarrow> CensorService" where
  "NewCensorService ulower =
     \<lparr>bannedWords = remdups (map (ToLower ulower)
        [''qwerty'',
         [CHR 0xD0, CHR 0xB9, CHR 0xD1, CHR 0x86, CHR 0xD1, CHR 0x83,
         CHR 0xD0, CHR 0xBA, CHR 0xD0, CHR 0xB5, CHR 0xD0, CHR 0xBD],
         ''zxvbnm''])\<rparr>"

definition IsBanned :: "(string \<Rightarrow> string) \<Rightarrow> CensorService \<Rightarrow> string \<Rightarrow> bool" where
  "IsBanned ulower cs text =
     (let lowerText = ToLower ulower text
      in list_ex (\<lambda>word. Contains lowerText word) (bannedWords cs))"

definition checkHandler ::
  "(string \<Rightarrow> json option) \<Rightarrow> (string \<Rightarrow> string) \<Rightarrow> CensorService \<Rightarrow> body \<Rightarrow> http_response" where
  "checkHandler parse ulower cs b =
     (case decodeCheckRequest parse b of
        None \<Rightarrow> http_Error ''Invalid request body'' 400
      | Some req \<Rightarrow>
          if IsBanned ulower cs (chkText req) then
            http_Error ''Text contains prohibited content'' 400
          else
            write_json (encodeResponse
              \<lparr>Status = ''success'',
               Data = Some (JObj [(''message'', JStr ''Text is clean'')]),
               Error = [], Pagination = None\<rparr>))"


section \<open>The comment service\<close>

text \<open>
  The \<open>comments\<close> table of the SQLite database and the counter behind
  \<open>AUTOINCREMENT\<close> (the largest id ever assigned). \<open>parent_id\<close> is nullable; the
  declared foreign key is not enforced (SQLite enforces none unless asked to, and
  \<open>initDB\<close> does not ask).
\<close>

record row =
  row_id :: int
  row_news_id :: int
  row_parent_id :: "int option"
  row_text :: string
  row_created_at :: string

record db =
  rows :: "row list"
  seq :: int

definition empty_db :: db where
  "empty_db = \<lparr>rows = [], seq = 0\<rparr>"

text \<open>
  Every call into \<open>database/sql\<close> can fail in the driver (a locked or full database);
  \<open>flt\<close> says which calls of a request do. \<open>sql.ErrNoRows\<close> is not among these
  failures: it is decided by the table.
\<close>

datatype dbcall =
  SelectComments | ScanComment | SelectParent | InsertComment | LastInsertId | SelectInserted

definition scanComment :: "row \<Rightarrow> Comment" where
  "scanComment r =
     \<lparr>cID = row_id r, cNewsID = row_news_id r, cParentID = row_parent_id r,
      cText = row_text r, cCreatedAt = row_created_at r\<rparr>"

text \<open>
  \<open>SELECT ... WHERE news_id = ? ORDER BY created_at ASC\<close>: the matching rows, sorted
  by their timestamp text; rows with equal timestamps stay in table order.
\<close>

definition selectComments :: "db \<Rightarrow> int \<Rightarrow> row list" where
  "selectComments d newsID = sort_key row_created_at (filter (\<lambda>r. row_news_id r = newsID) (rows d))"

text \<open>\<open>getCommentsHandler\<close> (\<open>GET /comments?news_id=\<close>).\<close>

definition getCommentsHandler :: "(dbcall \<Rightarrow> bool) \<Rightarrow> db \<Rightarrow> string \<Rightarrow> http_response" where
  "getCommentsHandler flt d newsIDStr =
     (if newsIDStr = [] then http_Error ''news_id parameter is required'' 400
      else case Atoi newsIDStr of
        None \<Rightarrow> http_Error ''Invalid news_id parameter'' 400
      | Some newsID \<Rightarrow>
          if flt SelectComments then http_Error ''Failed to fetch comments'' 500
          else if selectComments d newsID \<noteq> [] \<and> flt ScanComment then
            http_Error ''Failed to scan comment'' 500
          else
            write_json (encodeResponse
              \<lparr>Status = ''success'',
               Data = Some (encodeComments (map scanComment (selectComments d newsID))),
               Error = [], Pagination = None\<rparr>))"

text \<open>
  \<open>INSERT INTO comments (news_id, parent_id, text)\<close>: the new row gets the next id
  (one more than the largest id ever used, at least 1) and the current timestamp
  \<open>now\<close> of the database. The insert fails when no 64-bit id is left.
\<close>

definition next_id :: "db \<Rightarrow> int" where
  "next_id d = 1 + foldl max (max 0 (seq d)) (map row_id (rows d))"

definition insertComment :: "string \<Rightarrow> int \<Rightarrow> int option \<Rightarrow> string \<Rightarrow> db \<Rightarrow> db" where
  "insertComment now newsID parentID text d =
     \<lparr>rows = rows d @ [\<lparr>row_id = next_id d, row_news_id = newsID, row_parent_id = parentID,
                        row_text = text, row_created_at = now\<rparr>],
      seq = next_id d\<rparr>"

text \<open>
  The parent the insert binds: \<open>if req.ParentID != nil && *req.ParentID > 0\<close> the
  request's parent, otherwise \<open>nil\<close> (SQL \<open>NULL\<close>).
\<close>

definition insert_parentID :: "int option \<Rightarrow> int option" where
  "insert_parentID p = (case p of None \<Rightarrow> None | Some q \<Rightarrow> if q > 0 then Some q else None)"

text \<open>\<open>createCommentHandler\<close> of the comment service (\<open>POST /comments\<close>).\<close>

definition comments_createCommentHandler ::
  "(string \<Rightarrow> json option) \<Rightarrow> (dbcall \<Rightarrow> bool) \<Rightarrow> string \<Rightarrow> db \<Rightarrow> body \<Rightarrow> http_response \<times> db" where
  "comments_createCommentHandler parse flt now d b =
     (case decodeCommentRequest parse b of
        None \<Rightarrow> (http_Error ''Invalid request body'' 400, d)
      | Some req \<Rightarrow>
          if Text req = [] then (http_Error ''Comment text is required'' 400, d)
          else if NewsID req \<le> 0 then (http_Error ''Valid news ID is required'' 400, d)
          else if ParentID req \<noteq> None \<and> flt SelectParent then
            (http_Error ''Failed to validate parent comment'' 500, d)
          else if ParentID req \<noteq> None \<and>
                  \<not> list_ex (\<lambda>r. Some (row_id r) = ParentID req) (rows d) then
            (http_Error ''Parent comment does not exist'' 400, d)
          else
            let parentID = insert_parentID (ParentID req)
            in if flt InsertComment \<or> \<not> in_int64 (next_id d) then
                 (http_Error ''Failed to save comment'' 500, d)
               else
                 let d' = insertComment now (NewsID req) parentID (Text req) d;
                     newID = next_id d
                 in if flt LastInsertId then
                      (http_Error ''Failed to get inserted comment ID'' 500, d')
                    else if flt SelectInserted then
                      (http_Error ''Failed to fetch inserted comment'' 500, d')
                    else
                      (case find (\<lambda>r. row_id r = newID) (rows d') of
                         None \<Rightarrow> (http_Error ''Failed to fetch inserted comment'' 500, d')
                       | Some r \<Rightarrow>
                           (write_json (encodeResponse
                              \<lparr>Status = ''success'', Data = Some (encodeComment (scanComment r)),
                               Error = [], Pagination = None\<rparr>), d')))"

section \<open>The news aggregator\<close>

text \<open>
  \<open>time.Now().Add(-h * time.Hour).Format("2006-01-02 15:04:05")\<close>. The clock reading
  \<open>now\<close> is in seconds since the Unix epoch; \<open>zone\<close> gives the offset of the local time
  zone at an instant, in seconds (zero where the zone is UTC). The date is the civil
  date of the proleptic Gregorian calendar.
\<close>

definition civil_from_days :: "int \<Rightarrow> int \<times> int \<times> int" where
  "civil_from_days z0 =
     (let z = z0 + 719468;
          era = z div 146097;
          doe = z - era * 146097;
          yoe = (doe - doe div 1460 + doe div 36524 - doe div 146096) div 365;
          y = yoe + era * 400;
          doy = doe - (365 * yoe + yoe div 4 - yoe div 100);
          mp = (5 * doy + 2) div 153;
          d = doy - (153 * mp + 2) div 5 + 1;
          m = (if mp < 10 then mp + 3 else mp - 9)
      in (if m \<le> 2 then y + 1 else y, m, d))"

definition zero_pad :: "nat \<Rightarrow> int \<Rightarrow> string" where
  "zero_pad w n =
     (if n < 0 then CHR ''-'' # replicate (w - length (digits (nat (- n)))) (CHR ''0'') @ digits (nat (- n))
      else replicate (w - length (digits (nat n))) (CHR ''0'') @ digits (nat n))"

definition formatTime :: "(int \<Rightarrow> int) \<Rightarrow> int \<Rightarrow> string" where
  "formatTime zone t =
     (let l = t + zone t;
          secs = l mod 86400
      in case civil_from_days (l div 86400) of
           (y, m, d) \<Rightarrow>
             zero_pad 4 y @ ''-'' @ zero_pad 2 m @ ''-'' @ zero_pad 2 d @ '' '' @
             zero_pad 2 (secs div 3600) @ '':'' @ zero_pad 2 (secs mod 3600 div 60) @ '':'' @
             zero_pad 2 (secs mod 60))"

text \<open>
  The mock data of \<open>findNewsByID\<close>: five items with Russian titles and contents (their
  UTF-8 bytes) and dates 0, 24, 48, 12 and 36 hours before the clock reading.
\<close>

definition title1 :: string where
  "title1 =
     [CHR 0xD0, CHR 0x9D, CHR 0xD0, CHR 0xBE, CHR 0xD0, CHR 0xB2, CHR 0xD0, CHR 0xBE,
      CHR 0xD1, CHR 0x81, CHR 0xD1, CHR 0x82, CHR 0xD0, CHR 0xB8, CHR 0x20, CHR 0xD1,
      CHR 0x82, CHR 0xD0, CHR 0xB5, CHR 0xD1, CHR 0x85, CHR 0xD0, CHR 0xBD, CHR 0xD0,
      CHR 0xBE, CHR 0xD0, CHR 0xBB, CHR 0xD0, CHR 0xBE, CHR 0xD0, CHR 0xB3, CHR 0xD0,
      CHR 0xB8, CHR 0xD0, CHR 0xB9]"

definition content1 :: string where
  "content1 =
     [CHR 0xD0, CHR 0x92, CHR 0x20, CHR 0xD1, CHR 0x8D, CHR 0xD1, CHR 0x82, CHR 0xD0,
      CHR 0xBE, CHR 0xD0, CHR 0xBC, CHR 0x20, CHR 0xD0, CHR 0xB2, CHR 0xD1, CHR 0x8B,
      CHR 0xD0, CHR 0xBF, CHR 0xD1, CHR 0x83, CHR 0xD1, CHR 0x81, CHR 0xD0, CHR 0xBA,
      CHR 0xD0, CHR 0xB5, CHR 0x3A, CHR 0x20, CHR 0xD0, CHR 0xBF, CHR 0xD0, CHR 0xBE,
      CHR 0xD1, CHR 0x81, CHR 0xD0, CHR 0xBB, CHR 0xD0, CHR 0xB5, CHR 0xD0, CHR 0xB4,
      CHR 0xD0, CHR 0xBD, CHR 0xD0, CHR 0xB8, CHR 0xD0, CHR 0xB5, CHR 0x20, CHR 0xD0,
      CHR 0xBE, CHR 0xD0, CHR 0xB1, CHR 0xD0, CHR 0xBD, CHR 0xD0, CHR 0xBE, CHR 0xD0,
      CHR 0xB2, CHR 0xD0, CHR 0xBB, CHR 0xD0, CHR 0xB5, CHR 0xD0, CHR 0xBD, CHR 0xD0,
      CHR 0xB8, CHR 0xD1, CHR 0x8F, CHR 0x20, CHR 0xD0, CHR 0xB2, CHR 0x20, CHR 0xD0,
      CHR 0xBC, CHR 0xD0, CHR 0xB8, CHR 0xD1, CHR 0x80, CHR 0xD0, CHR 0xB5, CHR 0x20,
      CHR 0xD1, CHR 0x82, CHR 0xD0, CHR 0xB5, CHR 0xD1, CHR 0x85, CHR 0xD0, CHR 0xBD,
      CHR 0xD0, CHR 0xBE, CHR 0xD0, CHR 0xBB, CHR 0xD0, CHR 0xBE, CHR 0xD0, CHR 0xB3,
      CHR 0xD0, CHR 0xB8, CHR 0xD0, CHR 0xB9, CHR 0x2C, CHR 0x20, CHR 0xD0, CHR 0xBD,
      CHR 0xD0, CHR 0xBE, CHR 0xD0, CHR 0xB2, CHR 0xD1, CHR 0x8B, CHR 0xD0, CHR 0xB5,
      CHR 0x20, CHR 0xD1, CHR 0x80, CHR 0xD0, CHR 0xB5, CHR 0xD0, CHR 0xBB, CHR 0xD0,
      CHR 0xB8, CHR 0xD0, CHR 0xB7, CHR 0xD1, CHR 0x8B, CHR 0x20, CHR 0xD0, CHR 0xB8,
      CHR 0x20, CHR 0xD1, CHR 0x82, CHR 0xD1, CHR 0x80, CHR 0xD0, CHR 0xB5, CHR 0xD0,
      CHR 0xBD, CHR 0xD0, CHR 0xB4, CHR 0xD1, CHR 0x8B, CHR 0x2E]"

definition title2 :: string where
  "title2 =
     [CHR 0xD0, CHR 0xAD, CHR 0xD0, CHR 0xBA, CHR 0xD0, CHR 0xBE, CHR 0xD0, CHR 0xBD,
      CHR 0xD0, CHR 0xBE, CHR 0xD0, CHR 0xBC, CHR 0xD0, CHR 0xB8, CHR 0xD1, CHR 0x87,
      CHR 0xD0, CHR 0xB5, CHR 0xD1, CHR 0x81, CHR 0xD0, CHR 0xBA, CHR 0xD0, CHR 0xB0,
      CHR 0xD1, CHR 0x8F, CHR 0x20, CHR 0xD0, CHR 0xB0, CHR 0xD0, CHR 0xBD, CHR 0xD0,
      CHR 0xB0, CHR 0xD0, CHR 0xBB, CHR 0xD0, CHR 0xB8, CHR 0xD1, CHR 0x82, CHR 0xD0,
      CHR 0xB8, CHR 0xD0, CHR 0xBA, CHR 0xD0, CHR 0xB0]"

definition content2 :: string where
  "content2 =
     [CHR 0xD0, CHR 0x90, CHR 0xD0, CHR 0xBD, CHR 0xD0, CHR 0xB0, CHR 0xD0, CHR 0xBB,
      CHR 0xD0, CHR 0xB8, CHR 0xD0, CHR 0xB7, CHR 0x20, CHR 0xD1, CHR 0x82, CHR 0xD0,
      CHR 0xB5, CHR 0xD0, CHR 0xBA, CHR 0xD1, CHR 0x83, CHR 0xD1, CHR 0x89, CHR 0xD0,
      CHR 0xB5, CHR 0xD0, CHR 0xB9, CHR 0x20, CHR 0xD1, CHR 0x8D, CHR 0xD0, CHR 0xBA,
      CHR 0xD0, CHR 0xBE, CHR 0xD0, CHR 0xBD, CHR 0xD0, CHR 0xBE, CHR 0xD0, CHR 0xBC,
      CHR 0xD0, CHR 0xB8, CHR 0xD1, CHR 0x87, CHR 0xD0, CHR 0xB5, CHR 0xD1, CHR 0x81,
      CHR 0xD0, CHR 0xBA, CHR 0xD0, CHR 0xBE, CHR 0xD0, CHR 0xB9, CHR 0x20, CHR 0xD1,
      CHR 0x81, CHR 0xD0, CHR 0xB8, CHR 0xD1, CHR 0x82, CHR 0xD1, CHR 0x83, CHR 0xD0,
      CHR 0xB0, CHR 0xD1, CHR 0x86, CHR 0xD0, CHR 0xB8, CHR 0xD0, CHR 0xB8, CHR 0x20,
      CHR 0xD0, CHR 0xB8, CHR 0x20, CHR 0xD0, CHR 0xBF, CHR 0xD1, CHR 0x80, CHR 0xD0,
      CHR 0xBE, CHR 0xD0, CHR 0xB3, CHR 0xD0, CHR 0xBD, CHR 0xD0, CHR 0xBE, CHR 0xD0,
      CHR 0xB7, CHR 0xD1, CHR 0x8B, CHR 0x20, CHR 0xD0, CHR 0xBD, CHR 0xD0, CHR 0xB0,
      CHR 0x20, CHR 0xD0, CHR 0xB1, CHR 0xD0, CHR 0xBB, CHR 0xD0, CHR 0xB8, CHR 0xD0,
      CHR 0xB6, CHR 0xD0, CHR 0xB0, CHR 0xD0, CHR 0xB9, CHR 0xD1, CHR 0x88, CHR 0xD0,
      CHR 0xB8, CHR 0xD0, CHR 0xB5, CHR 0x20, CHR 0xD0, CHR 0xBC, CHR 0xD0, CHR 0xB5,
      CHR 0xD1, CHR 0x81, CHR 0xD1, CHR 0x8F, CHR 0xD1, CHR 0x86, CHR 0xD1, CHR 0x8B,
      CHR 0x2E]"

definition title3 :: string where
  "title3 =
     [CHR 0xD0, CHR 0x9F, CHR 0xD0, CHR 0xBE, CHR 0xD0, CHR 0xBB, CHR 0xD0, CHR 0xB8,
      CHR 0xD1, CHR 0x82, CHR 0xD0, CHR 0xB8, CHR 0xD1, CHR 0x87, CHR 0xD0, CHR 0xB5,
      CHR 0xD1, CHR 0x81, CHR 0xD0, CHR 0xBA, CHR 0xD0, CHR 0xB8, CHR 0xD0, CHR 0xB5,
      CHR 0x20, CHR 0xD1, CHR 0x81, CHR 0xD0, CHR 0xBE, CHR 0xD0, CHR 0xB1, CHR 0xD1,
      CHR 0x8B, CHR 0xD1, CHR 0x82, CHR 0xD0, CHR 0xB8, CHR 0xD1, CHR 0x8F]"

definition content3 :: string where
  "content3 =
     [CHR 0xD0, CHR 0x9E, CHR 0xD0, CHR 0xB1, CHR 0xD0, CHR 0xB7, CHR 0xD0, CHR 0xBE,
      CHR 0xD1, CHR 0x80, CHR 0x20, CHR 0xD0, CHR 0xBF, CHR 0xD0, CHR 0xBE, CHR 0xD1,
      CHR 0x81, CHR 0xD0, CHR 0xBB, CHR 0xD0, CHR 0xB5, CHR 0xD0, CHR 0xB4, CHR 0xD0,
      CHR 0xBD, CHR 0xD0, CHR 0xB8, CHR 0xD1, CHR 0x85, CHR 0x20, CHR 0xD0, CHR 0xBF,
      CHR 0xD0, CHR 0xBE, CHR 0xD0, CHR 0xBB, CHR 0xD0, CHR 0xB8, CHR 0xD1, CHR 0x82,
      CHR 0xD0, CHR 0xB8, CHR 0xD1, CHR 0x87, CHR 0xD0, CHR 0xB5, CHR 0xD1, CHR 0x81,
      CHR 0xD0, CHR 0xBA, CHR 0xD0, CHR 0xB8, CHR 0xD1, CHR 0x85, CHR 0x20, CHR 0xD1,
      CHR 0x81, CHR 0xD0, CHR 0xBE, CHR 0xD0, CHR 0xB1, CHR 0xD1, CHR 0x8B, CHR 0xD1,
      CHR 0x82, CHR 0xD0, CHR 0xB8, CHR 0xD0, CHR 0xB9, CHR 0x20, CHR 0xD0, CHR 0xB2,
      CHR 0x20, CHR 0xD1, CHR 0x81, CHR 0xD1, CHR 0x82, CHR 0xD1, CHR 0x80, CHR 0xD0,
      CHR 0xB0, CHR 0xD0, CHR 0xBD, CHR 0xD0, CHR 0xB5, CHR 0x20, CHR 0xD0, CHR 0xB8,
      CHR 0x20, CHR 0xD0, CHR 0xB7, CHR 0xD0, CHR 0xB0, CHR 0x20, CHR 0xD1, CHR 0x80,
      CHR 0xD1, CHR 0x83, CHR 0xD0, CHR 0xB1, CHR 0xD0, CHR 0xB5, CHR 0xD0, CHR 0xB6,
      CHR 0xD0, CHR 0xBE, CHR 0xD0, CHR 0xBC, CHR 0x2E]"

definition title4 :: string where
  "title4 =
     [CHR 0xD0, CHR 0xA1, CHR 0xD0, CHR 0xBF, CHR 0xD0, CHR 0xBE, CHR 0xD1, CHR 0x80,
      CHR 0xD1, CHR 0x82, CHR 0xD0, CHR 0xB8, CHR 0xD0, CHR 0xB2, CHR 0xD0, CHR 0xBD,
      CHR 0xD1, CHR 0x8B, CHR 0xD0, CHR 0xB5, CHR 0x20, CHR 0xD0, CHR 0xBD, CHR 0xD0,
      CHR 0xBE, CHR 0xD0, CHR 0xB2, CHR 0xD0, CHR 0xBE, CHR 0xD1, CHR 0x81, CHR 0xD1,
      CHR 0x82, CHR 0xD0, CHR 0xB8]"

definition content4 :: string where
  "content4 =
     [CHR 0xD0, CHR 0xA0, CHR 0xD0, CHR 0xB5, CHR 0xD0, CHR 0xB7, CHR 0xD1, CHR 0x83,
      CHR 0xD0, CHR 0xBB, CHR 0xD1, CHR 0x8C, CHR 0xD1, CHR 0x82, CHR 0xD0, CHR 0xB0,
      CHR 0xD1, CHR 0x82, CHR 0xD1, CHR 0x8B, CHR 0x20, CHR 0xD0, CHR 0xBF, CHR 0xD0,
      CHR 0xBE, CHR 0xD1, CHR 0x81, CHR 0xD0, CHR 0xBB, CHR 0xD0, CHR 0xB5, CHR 0xD0,
      CHR 0xB4, CHR 0xD0, CHR 0xBD, CHR 0xD0, CHR 0xB8, CHR 0xD1, CHR 0x85, CHR 0x20,
      CHR 0xD1, CHR 0x81, CHR 0xD0, CHR 0xBE, CHR 0xD1, CHR 0x80, CHR 0xD0, CHR 0xB5,
      CHR 0xD0, CHR 0xB2, CHR 0xD0, CHR 0xBD, CHR 0xD0, CHR 0xBE, CHR 0xD0, CHR 0xB2,
      CHR 0xD0, CHR 0xB0, CHR 0xD0, CHR 0xBD, CHR 0xD0, CHR 0xB8, CHR 0xD0, CHR 0xB9,
      CHR 0x20, CHR 0xD0, CHR 0xB8, CHR 0x20, CHR 0xD0, CHR 0xB8, CHR 0xD0, CHR 0xBD,
      CHR 0xD1, CHR 0x82, CHR 0xD0, CHR 0xB5, CHR 0xD1, CHR 0x80, CHR 0xD0, CHR 0xB2,
      CHR 0xD1, CHR 0x8C, CHR 0xD1, CHR 0x8E, CHR 0x20, CHR 0xD1, CHR 0x81, CHR 0x20,
      CHR 0xD0, CHR 0xB8, CHR 0xD0, CHR 0xB7, CHR 0xD0, CHR 0xB2, CHR 0xD0, CHR 0xB5,
      CHR 0xD1, CHR 0x81, CHR 0xD1, CHR 0x82, CHR 0xD0, CHR 0xBD, CHR 0xD1, CHR 0x8B,
      CHR 0xD0, CHR 0xBC, CHR 0xD0, CHR 0xB8, CHR 0x20, CHR 0xD1, CHR 0x81, CHR 0xD0,
      CHR 0xBF, CHR 0xD0, CHR 0xBE, CHR 0xD1, CHR 0x80, CHR 0xD1, CHR 0x82, CHR 0xD1,
      CHR 0x81, CHR 0xD0, CHR 0xBC, CHR 0xD0, CHR 0xB5, CHR 0xD0, CHR 0xBD, CHR 0xD0,
      CHR 0xB0, CHR 0xD0, CHR 0xBC, CHR 0xD0, CHR 0xB8, CHR 0x2E]"

definition title5 :: string where
  "title5 =
     [CHR 0xD0, CHR 0x9A, CHR 0xD1, CHR 0x83, CHR 0xD0, CHR 0xBB, CHR 0xD1, CHR 0x8C,
      CHR 0xD1, CHR 0x82, CHR 0xD1, CHR 0x83, CHR 0xD1, CHR 0x80, CHR 0xD0, CHR 0xB0,
      CHR 0x20, CHR 0xD0, CHR 0xB8, CHR 0x20, CHR 0xD0, CHR 0xB8, CHR 0xD1, CHR 0x81,
      CHR 0xD0, CHR 0xBA, CHR 0xD1, CHR 0x83, CHR 0xD1, CHR 0x81, CHR 0xD1, CHR 0x81,
      CHR 0xD1, CHR 0x82, CHR 0xD0, CHR 0xB2, CHR 0xD0, CHR 0xBE]"

definition content5 :: string where
  "content5 =
     [CHR 0xD0, CHR 0x9E, CHR 0xD1, CHR 0x82, CHR 0xD0, CHR 0xBA, CHR 0xD1, CHR 0x80,
      CHR 0xD1, CHR 0x8B, CHR 0xD1, CHR 0x82, CHR 0xD0, CHR 0xB8, CHR 0xD0, CHR 0xB5,
      CHR 0x20, CHR 0xD0, CHR 0xBD, CHR 0xD0, CHR 0xBE, CHR 0xD0, CHR 0xB2, CHR 0xD1,
      CHR 0x8B, CHR 0xD1, CHR 0x85, CHR 0x20, CHR 0xD0, CHR 0xB2, CHR 0xD1, CHR 0x8B,
      CHR 0xD1, CHR 0x81, CHR 0xD1, CHR 0x82, CHR 0xD0, CHR 0xB0, CHR 0xD0, CHR 0xB2,
      CHR 0xD0, CHR 0xBE, CHR 0xD0, CHR 0xBA, CHR 0x2C, CHR 0x20, CHR 0xD0, CHR 0xBF,
      CHR 0xD1, CHR 0x80, CHR 0xD0, CHR 0xB5, CHR 0xD0, CHR 0xBC, CHR 0xD1, CHR 0x8C,
      CHR 0xD0, CHR 0xB5, CHR 0xD1, CHR 0x80, CHR 0xD1, CHR 0x8B, CHR 0x20, CHR 0xD1,
      CHR 0x84, CHR 0xD0, CHR 0xB8, CHR 0xD0, CHR 0xBB, CHR 0xD1, CHR 0x8C, CHR 0xD0,
      CHR 0xBC, CHR 0xD0, CHR 0xBE, CHR 0xD0, CHR 0xB2, CHR 0x20, CHR 0xD0, CHR 0xB8,
      CHR 0x20, CHR 0xD1, CHR 0x82, CHR 0xD0, CHR 0xB5, CHR 0xD0, CHR 0xB0, CHR 0xD1,
      CHR 0x82, CHR 0xD1, CHR 0x80, CHR 0xD0, CHR 0xB0, CHR 0xD0, CHR 0xBB, CHR 0xD1,
      CHR 0x8C, CHR 0xD0, CHR 0xBD, CHR 0xD1, CHR 0x8B, CHR 0xD1, CHR 0x85, CHR 0x20,
      CHR 0xD0, CHR 0xBF, CHR 0xD0, CHR 0xBE, CHR 0xD1, CHR 0x81, CHR 0xD1, CHR 0x82,
      CHR 0xD0, CHR 0xB0, CHR 0xD0, CHR 0xBD, CHR 0xD0, CHR 0xBE, CHR 0xD0, CHR 0xB2,
      CHR 0xD0, CHR 0xBE, CHR 0xD0, CHR 0xBA, CHR 0x2E]"

definition mockNews :: "(int \<Rightarrow> int) \<Rightarrow> int \<Rightarrow> NewsItem list" where
  "mockNews zone now =
     [\<lparr>ID = 1, Title = title1, Content = content1, Date = formatTime zone now\<rparr>,
      \<lparr>ID = 2, Title = title2, Content = content2, Date = formatTime zone (now - 24 * 3600)\<rparr>,
      \<lparr>ID = 3, Title = title3, Content = content3, Date = formatTime zone (now - 48 * 3600)\<rparr>,
      \<lparr>ID = 4, Title = title4, Content = content4, Date = formatTime zone (now - 12 * 3600)\<rparr>,
      \<lparr>ID = 5, Title = title5, Content = content5, Date = formatTime zone (now - 36 * 3600)\<rparr>]"

definition findNewsByID :: "(int \<Rightarrow> int) \<Rightarrow> int \<Rightarrow> int \<Rightarrow> NewsItem option" where
  "findNewsByID zone now i = find (\<lambda>item. ID item = i) (mockNews zone now)"

text \<open>\<open>getNewsByIDHandler\<close> of the news aggregator (\<open>GET /news/{id}\<close>).\<close>

definition news_getNewsByIDHandler :: "(int \<Rightarrow> int) \<Rightarrow> int \<Rightarrow> string \<Rightarrow> http_response" where
  "news_getNewsByIDHandler zone now idStr =
     (case Atoi idStr of
        None \<Rightarrow> http_Error ''Invalid news ID'' 400
      | Some i \<Rightarrow>
          (case findNewsByID zone now i of
             None \<Rightarrow> http_Error ''News not found'' 404
           | Some news \<Rightarrow> write_json (encodeNewsItem news)))"

section \<open>The services wired together\<close>

text \<open>
  The network of the default configuration, as far as \<open>POST /comment\<close> and
  \<open>GET /news/{id}\<close> use it: the censor service, the comment service over its database
  (the state of the world) and the news aggregator, each reached at its default URL.
  The query of a comment fetch is a decimal integer written by the gateway, so it needs
  no unescaping. Any other URL is answered like an unreachable host; the list endpoint
  of the news aggregator is not modelled.

  The parameters are the environment of one gateway request: the JSON parser and the
  Unicode tables of the standard library, the time zone and clock of the news
  aggregator, the driver failures and the timestamp of the database.
\<close>

definition stripPrefix :: "string \<Rightarrow> string \<Rightarrow> string option" where
  "stripPrefix p s = (if take (length p) s = p then Some (drop (length p) s) else None)"

definition deployment ::
  "(string \<Rightarrow> json option) \<Rightarrow> (string \<Rightarrow> string) \<Rightarrow> (int \<Rightarrow> int) \<Rightarrow> int \<Rightarrow> (dbcall \<Rightarrow> bool) \<Rightarrow>
   string \<Rightarrow> db net" where
  "deployment parse ulower zone clock flt now rq d =
     (if Method rq = ''POST'' \<and> URL rq = ''http://censor-service:8082/check'' then
        (Some (checkHandler parse ulower (NewCensorService ulower) (OutBody rq)), d)
      else if Method rq = ''POST'' \<and> URL rq = ''http://comment-service:8081/comments'' then
        (case comments_createCommentHandler parse flt now d (OutBody rq) of
           (r, d') \<Rightarrow> (Some r, d'))
      else if Method rq = ''GET'' \<and>
              stripPrefix ''http://comment-service:8081/comments?news_id='' (URL rq) \<noteq> None then
        (Some (getCommentsHandler flt d
                 (the (stripPrefix ''http://comment-service:8081/comments?news_id='' (URL rq)))), d)
      else if Method rq = ''GET'' \<and>
              stripPrefix ''http://news-aggregator:8083/news/'' (URL rq) \<noteq> None then
        (Some (news_getNewsByIDHandler zone clock
                 (the (stripPrefix ''http://news-aggregator:8083/news/'' (URL rq)))), d)
      else (None, d))"


section \<open>Requests used as examples\<close>

text \<open>
  A request with the given header, \<open>{id}\<close> segment and body and no query, and the two
  comment submissions of the specification's scenarios.
\<close>

definition mk_request :: "header \<Rightarrow> string \<Rightarrow> body \<Rightarrow> request" where
  "mk_request h i b =
     \<lparr>Header = h, URLParam_id = i, Query_page = [], Query_page_size = [], Query_search = [],
      Body = b\<rparr>"

definition qwerty_body :: body where
  "qwerty_body = Encoded (JObj [(''news_id'', JNum 1), (''text'', JStr ''contains qwerty'')])"

definition hello_body :: body where
  "hello_body = Encoded (JObj [(''news_id'', JNum 1), (''text'', JStr ''hello'')])"


text \<open>A submission that names the parent 0, and a table that holds one comment.\<close>

definition zero_parent_body :: body where
  "zero_parent_body =
     Encoded (JObj [(''news_id'', JNum 1), (''parent_id'', JNum 0), (''text'', JStr ''hello'')])"


text \<open>A network on which no host can be reached.\<close>

definition unreachable :: "'w net" where
  "unreachable rq w = (None, w)"






section \<open>Properties\<close>

subsection \<open>Facts about decoding and encoding\<close>

lemma foldName_keys [simp]:
  "foldName ''news_id'' = ''NEWS_ID''" "foldName ''parent_id'' = ''PARENT_ID''"
  "foldName ''text'' = ''TEXT''" "foldName ''id'' = ''ID''" "foldName ''title'' = ''TITLE''"
  "foldName ''content'' = ''CONTENT''" "foldName ''date'' = ''DATE''"
  "foldName ''status'' = ''STATUS''" "foldName ''data'' = ''DATA''"
  "foldName ''error'' = ''ERROR''" "foldName ''pagination'' = ''PAGINATION''"
  "foldName ''created_at'' = ''CREATED_AT''" "foldName ''message'' = ''MESSAGE''"
  by (simp_all add: toUpperASCII_def char_of_eq_iff)

declare foldName.simps [simp del]





lemma decode_encode_NewsItem:
  assumes "in_int64 (ID n)"
  shows "decodeNewsItem parse (Encoded (encodeNewsItem n)) = Some n"
  using assms
  by (cases n)
     (simp add: decodeNewsItem_def decodeBody_def encodeNewsItem_def decode_struct_def
       newsitem_member_def int_field_def string_field_def)

lemma decode_News_not_found:
  "decodeBody parse (rsp_body (http_Error ''News not found'' 404)) = None"
  by (simp add: decodeBody_def http_Error_def isSpace_def beginsValue_def isDigit_def)

lemma check_not_comments: "a @ ''/check'' \<noteq> b @ ''/comments''"
proof
  assume "a @ ''/check'' = b @ ''/comments''"
  then have "last (a @ ''/check'') = last (b @ ''/comments'')" by simp
  then show False by simp
qed

lemma persistence_calls_censorReq: "persistence_calls config [censorReq config rid req] = []"
  by (simp add: persistence_calls_def censorReq_def check_not_comments)

text \<open>Unfolding the services on concrete requests.\<close>

lemmas decode_defs =
  decodeCommentRequest_def decodeCheckRequest_def decodeBody_def decode_struct_def
  commentrequest_member_def checkrequest_member_def int_field_def string_field_def
  ptr_int_field_def in_int64_def

lemmas header_defs =
  Header_Set_def Header_Get_def CanonicalHeaderKey_def requestIDMiddleware_def
  toUpperASCII_def toLowerASCII_def char_of_eq_iff

lemmas censor_defs =
  checkHandler_def IsBanned_def NewCensorService_def ToLower_def toLowerASCII_def char_of_eq_iff

subsection \<open>The comment submission pipeline\<close>

text \<open>
  C1. A submission that passes the local validation (the body decodes, the text is not
  empty, the news id is positive) and whose moderation call returns a response with any
  status other than 200 is answered with HTTP 400; the moderation call is the only call
  the gateway issues, so no persistence call is made.
\<close>

theorem moderation_rejection_blocks_persistence:
  assumes "decodeCommentRequest parse (Body r) = Some req"
    and "Text req \<noteq> []" and "0 < NewsID req"
    and "net (censorReq config (requestIDMiddleware fresh (Header r)) req) w = (Some censorResp, w')"
    and "rsp_status censorResp \<noteq> 200"
  shows "POST_comment config parse fresh net r w =
           (http_Error ''Comment contains prohibited content'' 400,
            ([censorReq config (requestIDMiddleware fresh (Header r)) req], w'))
         \<and> rsp_status (fst (POST_comment config parse fresh net r w)) = 400
         \<and> persistence_calls config (fst (snd (POST_comment config parse fresh net r w))) = []"
proof -
  have "POST_comment config parse fresh net r w =
           (http_Error ''Comment contains prohibited content'' 400,
            ([censorReq config (requestIDMiddleware fresh (Header r)) req], w'))"
    using assms by (simp add: POST_comment_def gateway_createCommentHandler_def client_Do_def)
  then show ?thesis
    by (simp add: persistence_calls_censorReq) (simp add: http_Error_def)
qed

theorem moderation_rejection_blocks_persistence_witness:
  "rsp_status (fst (POST_comment defaultConfig (\<lambda>s. None) ''fresh-id''
       (deployment (\<lambda>s. None) (\<lambda>s. s) (\<lambda>t. 0) 0 (\<lambda>c. False) ''2024-01-01T00:00:00Z'')
       (mk_request [] [] qwerty_body) empty_db)) = 400
   \<and> persistence_calls defaultConfig (fst (snd (POST_comment defaultConfig (\<lambda>s. None) ''fresh-id''
       (deployment (\<lambda>s. None) (\<lambda>s. s) (\<lambda>t. 0) 0 (\<lambda>c. False) ''2024-01-01T00:00:00Z'')
       (mk_request [] [] qwerty_body) empty_db))) = []"
proof -
  let ?req = "\<lparr>NewsID = 1, ParentID = None, Text = ''contains qwerty''\<rparr>"
  let ?net = "deployment (\<lambda>s. None) (\<lambda>s. s) (\<lambda>t. 0) 0 (\<lambda>c. False) ''2024-01-01T00:00:00Z''"
  have h1: "decodeCommentRequest (\<lambda>s. None) (Body (mk_request [] [] qwerty_body)) = Some ?req"
    by (simp add: decode_defs mk_request_def qwerty_body_def)
  have h2: "Text ?req \<noteq> []" by simp
  have h3: "0 < NewsID ?req" by simp
  have h4: "?net (censorReq defaultConfig (requestIDMiddleware ''fresh-id'' (Header (mk_request [] [] qwerty_body))) ?req) empty_db
        = (Some (http_Error ''Text contains prohibited content'' 400), empty_db)"
    by (simp add: deployment_def censorReq_def defaultConfig_def decode_defs censor_defs)
  have h5: "rsp_status (http_Error ''Text contains prohibited content'' 400) \<noteq> 200"
    by (simp add: http_Error_def)
  from moderation_rejection_blocks_persistence
         [where net = ?net and config = defaultConfig and fresh = "''fresh-id''"
            and w = empty_db and w' = empty_db, OF h1 h2 h3 h4 h5]
  show ?thesis by (rule conjunct2)
qed

text \<open>
  C2. A submission that passes the local validation and whose moderation call fails at
  transport level (the client returns an error: host unreachable, connection error,
  timeout) is answered with HTTP 500; the failed moderation call is the only call the
  gateway issues, so the comment is never sent to the comment service.
\<close>

theorem moderation_unreachable_fails_closed:
  assumes "decodeCommentRequest parse (Body r) = Some req"
    and "Text req \<noteq> []" and "0 < NewsID req"
    and "net (censorReq config (requestIDMiddleware fresh (Header r)) req) w = (None, w')"
  shows "POST_comment config parse fresh net r w =
           (http_Error ''Failed to check comment with censor service'' 500,
            ([censorReq config (requestIDMiddleware fresh (Header r)) req], w'))
         \<and> rsp_status (fst (POST_comment config parse fresh net r w)) = 500
         \<and> persistence_calls config (fst (snd (POST_comment config parse fresh net r w))) = []"
proof -
  have "POST_comment config parse fresh net r w =
           (http_Error ''Failed to check comment with censor service'' 500,
            ([censorReq config (requestIDMiddleware fresh (Header r)) req], w'))"
    using assms by (simp add: POST_comment_def gateway_createCommentHandler_def client_Do_def)
  then show ?thesis
    by (simp add: persistence_calls_censorReq) (simp add: http_Error_def)
qed

theorem moderation_unreachable_fails_closed_witness:
  "rsp_status (fst (POST_comment defaultConfig (\<lambda>s. None) ''fresh-id'' unreachable
        (mk_request [] [] hello_body) empty_db)) = 500
   \<and> persistence_calls defaultConfig (fst (snd (POST_comment defaultConfig (\<lambda>s. None) ''fresh-id''
        unreachable (mk_request [] [] hello_body) empty_db))) = []"
proof -
  let ?req = "\<lparr>NewsID = 1, ParentID = None, Text = ''hello''\<rparr>"
  have h1: "decodeCommentRequest (\<lambda>s. None) (Body (mk_request [] [] hello_body)) = Some ?req"
    by (simp add: decode_defs mk_request_def hello_body_def)
  have h2: "Text ?req \<noteq> []" by simp
  have h3: "0 < NewsID ?req" by simp
  have h4: "unreachable (censorReq defaultConfig (requestIDMiddleware ''fresh-id'' (Header (mk_request [] [] hello_body))) ?req) empty_db
        = (None, empty_db)"
    by (simp add: unreachable_def)
  from moderation_unreachable_fails_closed
         [where net = unreachable and config = defaultConfig and fresh = "''fresh-id''"
            and w = empty_db and w' = empty_db, OF h1 h2 h3 h4]
  show ?thesis by (rule conjunct2)
qed

text \<open>
  C6. A \<open>POST /comment\<close> request whose body decodes to a comment with an empty text or
  with a news id that is zero or negative is answered with HTTP 400 at once: the
  gateway issues no call at all, and the world behind the network is left as it was.
\<close>

theorem invalid_submission_makes_no_downstream_call:
  assumes "decodeCommentRequest parse (Body r) = Some req"
    and "Text req = [] \<or> NewsID req \<le> 0"
  shows "rsp_status (fst (POST_comment config parse fresh net r w)) = 400
         \<and> snd (POST_comment config parse fresh net r w) = ([], w)"
  using assms
  by (auto simp: POST_comment_def gateway_createCommentHandler_def http_Error_def)

theorem invalid_submission_makes_no_downstream_call_witness:
  "rsp_status (fst (POST_comment defaultConfig (\<lambda>s. None) ''fresh-id''
       (deployment (\<lambda>s. None) (\<lambda>s. s) (\<lambda>t. 0) 0 (\<lambda>c. False) ''2024-01-01T00:00:00Z'')
       (mk_request [] [] (Encoded (JObj [(''news_id'', JNum 0), (''text'', JStr ''hello'')])))
       empty_db)) = 400
   \<and> snd (POST_comment defaultConfig (\<lambda>s. None) ''fresh-id''
       (deployment (\<lambda>s. None) (\<lambda>s. s) (\<lambda>t. 0) 0 (\<lambda>c. False) ''2024-01-01T00:00:00Z'')
       (mk_request [] [] (Encoded (JObj [(''news_id'', JNum 0), (''text'', JStr ''hello'')])))
       empty_db) = ([], empty_db)"
proof -
  let ?req = "\<lparr>NewsID = 0, ParentID = None, Text = ''hello''\<rparr>"
  have h1: "decodeCommentRequest (\<lambda>s. None)
      (Body (mk_request [] [] (Encoded (JObj [(''news_id'', JNum 0), (''text'', JStr ''hello'')])))) = Some ?req"
    by (simp add: decode_defs mk_request_def)
  have h2: "Text ?req = [] \<or> NewsID ?req \<le> 0" by simp
  from invalid_submission_makes_no_downstream_call[OF h1 h2]
  show ?thesis .
qed

subsection \<open>Facts about \<open>Atoi\<close>, \<open>%d\<close> and the mock news\<close>

lemma digit_val_digit_char: "d < 10 \<Longrightarrow> digit_val (digit_char d) = int d"
  by (simp add: digit_val_def digit_char_def)

lemma isDigit_digit_char: "d < 10 \<Longrightarrow> isDigit (digit_char d)"
  by (simp add: isDigit_def digit_char_def less_eq_char_def)

lemma digit_char_not_sign: "d < 10 \<Longrightarrow> digit_char d \<noteq> CHR ''-'' \<and> digit_char d \<noteq> CHR ''+''"
  by (auto simp: digit_char_def char_of_eq_iff take_bit_eq_mod)

lemma digits_not_Nil: "digits m \<noteq> []"
  by (subst digits.simps) simp

lemma digits_all_digit: "list_all isDigit (digits m)"
proof (induction m rule: digits.induct)
  case (1 m)
  show ?case
  proof (cases "m < 10")
    case True
    then show ?thesis by (subst digits.simps) (simp add: isDigit_digit_char)
  next
    case False
    with 1 show ?thesis by (subst digits.simps) (simp add: isDigit_digit_char)
  qed
qed

lemma digits_value: "foldl (\<lambda>a c. 10 * a + digit_val c) 0 (digits m) = int m"
proof (induction m rule: digits.induct)
  case (1 m)
  show ?case
  proof (cases "m < 10")
    case True
    then show ?thesis by (subst digits.simps) (simp add: digit_val_digit_char)
  next
    case False
    with 1 have "foldl (\<lambda>a c. 10 * a + digit_val c) 0 (digits (m div 10)) = int (m div 10)" by simp
    with False show ?thesis
      by (subst digits.simps) (simp add: digit_val_digit_char zdiv_int zmod_int)
  qed
qed

lemma digits_no_sign: "take 1 (digits m) \<noteq> ''-'' \<and> take 1 (digits m) \<noteq> ''+''"
proof -
  obtain c cs where d: "digits m = c # cs" using digits_not_Nil by (cases "digits m") auto
  have "isDigit c" using digits_all_digit[of m] d by simp
  then have "c \<noteq> CHR ''-'' \<and> c \<noteq> CHR ''+''" by (auto simp: isDigit_def)
  with d show ?thesis by simp
qed

lemma Atoi_itoa:
  assumes "in_int64 n"
  shows "Atoi (itoa n) = Some n"
proof (cases "n < 0")
  case True
  then show ?thesis using assms
    by (simp add: Atoi_def itoa_def digits_not_Nil digits_all_digit digits_value)
next
  case False
  then show ?thesis using assms digits_no_sign[of "nat n"]
    by (simp add: Atoi_def itoa_def digits_not_Nil digits_all_digit digits_value)
qed

lemma Atoi_in_range: "Atoi s = Some n \<Longrightarrow> in_int64 n"
  by (auto simp: Atoi_def Let_def split: if_splits)

lemma findNewsByID_Some:
  assumes "findNewsByID zone now n = Some item"
  shows "ID item = n \<and> 1 \<le> n \<and> n \<le> 5 \<and> findNewsByID zone' now' n = Some (item\<lparr>Date := Date (the (findNewsByID zone' now' n))\<rparr>)"
  using assms by (auto simp: findNewsByID_def mockNews_def split: if_splits)

lemma findNewsByID_None:
  "findNewsByID zone now n = None \<longleftrightarrow> \<not> (1 \<le> n \<and> n \<le> 5)"
  by (auto simp: findNewsByID_def mockNews_def)

lemma itoa_not_Nil: "itoa n \<noteq> []"
  by (simp add: itoa_def digits_not_Nil)

lemma decodeResponse_success:
  "decodeResponse parse
     (Encoded (encodeResponse \<lparr>Status = s, Data = Some d, Error = [], Pagination = None\<rparr>)) =
     (if d = JNull then Some \<lparr>Status = s, Data = None, Error = [], Pagination = None\<rparr>
      else if representable d then
        Some \<lparr>Status = s, Data = Some (generic d), Error = [], Pagination = None\<rparr>
      else None)"
  by (cases d)
     (simp_all add: decodeResponse_def decodeBody_def encodeResponse_def decode_struct_def
       response_member_def string_field_def interface_field_def)

subsection \<open>The detail aggregator\<close>

text \<open>
  C7. When the identifier of a \<open>GET /news/{id}\<close> request is an integer for which the
  news aggregator has no item, the aggregator answers 404 with a plain text, the
  gateway fails to decode that text and answers with HTTP 500 and a plain-text error:
  no payload is returned, and the news fetch is the only call the gateway issues, so no
  comment is ever fetched.
\<close>

theorem missing_news_item_stops_aggregation:
  assumes "Atoi (URLParam_id r) = Some n"
    and "findNewsByID zone clock n = None"
    and "net (get_request (NewsAggregatorURL config @ ''/news/'' @ URLParam_id r)) w =
           (Some (news_getNewsByIDHandler zone clock (URLParam_id r)), w')"
  shows "GET_news_id config parse fresh net r w =
           (http_Error ''Failed to decode news response'' 500,
            ([get_request (NewsAggregatorURL config @ ''/news/'' @ URLParam_id r)], w'))
         \<and> rsp_status (fst (GET_news_id config parse fresh net r w)) = 500
         \<and> plain_text_error (fst (GET_news_id config parse fresh net r w))
         \<and> payload (fst (GET_news_id config parse fresh net r w)) = None"
proof -
  have nf: "news_getNewsByIDHandler zone clock (URLParam_id r) = http_Error ''News not found'' 404"
    using assms(1,2) by (simp add: news_getNewsByIDHandler_def)
  have "decodeNewsItem parse (rsp_body (http_Error ''News not found'' 404)) = None"
    by (simp add: decodeNewsItem_def decode_News_not_found)
  with assms nf have "GET_news_id config parse fresh net r w =
           (http_Error ''Failed to decode news response'' 500,
            ([get_request (NewsAggregatorURL config @ ''/news/'' @ URLParam_id r)], w'))"
    by (simp add: GET_news_id_def gateway_getNewsByIDHandler_def client_Get_def client_Do_def)
  then show ?thesis
    by (simp add: http_Error_def plain_text_error_def payload_def)
qed

theorem missing_news_item_stops_aggregation_witness:
  "GET_news_id defaultConfig (\<lambda>s. None) ''fresh-id''
       (deployment (\<lambda>s. None) (\<lambda>s. s) (\<lambda>t. 0) 0 (\<lambda>c. False) ''2024-01-01T00:00:00Z'')
       (mk_request [] ''999'' (Plain [])) empty_db =
     (http_Error ''Failed to decode news response'' 500,
      ([get_request (NewsAggregatorURL defaultConfig @ ''/news/'' @ URLParam_id (mk_request [] ''999'' (Plain [])))],
       empty_db))
   \<and> rsp_status (fst (GET_news_id defaultConfig (\<lambda>s. None) ''fresh-id''
       (deployment (\<lambda>s. None) (\<lambda>s. s) (\<lambda>t. 0) 0 (\<lambda>c. False) ''2024-01-01T00:00:00Z'')
       (mk_request [] ''999'' (Plain [])) empty_db)) = 500
   \<and> plain_text_error (fst (GET_news_id defaultConfig (\<lambda>s. None) ''fresh-id''
       (deployment (\<lambda>s. None) (\<lambda>s. s) (\<lambda>t. 0) 0 (\<lambda>c. False) ''2024-01-01T00:00:00Z'')
       (mk_request [] ''999'' (Plain [])) empty_db))
   \<and> payload (fst (GET_news_id defaultConfig (\<lambda>s. None) ''fresh-id''
       (deployment (\<lambda>s. None) (\<lambda>s. s) (\<lambda>t. 0) 0 (\<lambda>c. False) ''2024-01-01T00:00:00Z'')
       (mk_request [] ''999'' (Plain [])) empty_db)) = None"
proof -
  let ?net = "deployment (\<lambda>s. None) (\<lambda>s. s) (\<lambda>t. 0) 0 (\<lambda>c. False) ''2024-01-01T00:00:00Z''"
  let ?r = "mk_request [] ''999'' (Plain [])"
  have h1: "Atoi (URLParam_id ?r) = Some 999"
    by (simp add: mk_request_def Atoi_def isDigit_def digit_val_def in_int64_def)
  have h2: "findNewsByID (\<lambda>t. 0) 0 999 = None"
    by (simp add: findNewsByID_None)
  have h3: "?net (get_request (NewsAggregatorURL defaultConfig @ ''/news/'' @ URLParam_id ?r)) empty_db =
           (Some (news_getNewsByIDHandler (\<lambda>t. 0) 0 (URLParam_id ?r)), empty_db)"
    by (simp add: deployment_def get_request_def defaultConfig_def mk_request_def stripPrefix_def)
  from missing_news_item_stops_aggregation
         [where net = ?net and config = defaultConfig and w = empty_db and w' = empty_db
            and zone = "\<lambda>t. 0" and clock = 0, OF h1 h2 h3]
  show ?thesis .
qed

text \<open>
  C10. When the news item exists and the comment service holds no comment for it, the
  comment service encodes its nil slice as \<open>"data": null\<close>, the gateway decodes that
  into a nil \<open>Data\<close> and copies it into the merged payload: the answer is a success
  envelope whose \<open>comments\<close> member is JSON \<open>null\<close>, not an empty array.
\<close>

theorem empty_comment_list_is_null:
  assumes "Atoi (URLParam_id r) = Some n"
    and "findNewsByID zone clock n = Some item"
    and "net (get_request (NewsAggregatorURL config @ ''/news/'' @ URLParam_id r)) w =
           (Some (news_getNewsByIDHandler zone clock (URLParam_id r)), wa)"
    and "net (get_request (CommentServiceURL config @ ''/comments?news_id='' @ itoa n)) wa =
           (Some (getCommentsHandler flt d (itoa n)), wb)"
    and "list_all (\<lambda>row. row_news_id row \<noteq> n) (rows d)"
    and "\<not> flt SelectComments"
  shows "fst (GET_news_id config parse fresh net r w) =
           write_json (encodeResponse
             \<lparr>Status = ''success'',
              Data = Some (JObj [(''comments'', JNull), (''news'', encodeNewsItem item),
                                 (''request_id'', JStr (requestIDMiddleware fresh (Header r)))]),
              Error = [], Pagination = None\<rparr>)
         \<and> rsp_status (fst (GET_news_id config parse fresh net r w)) = 200
         \<and> Option.bind (payload (fst (GET_news_id config parse fresh net r w))) (jmember ''comments'')
             = Some JNull"
proof -
  have range: "in_int64 n" using assms(1) by (rule Atoi_in_range)
  have "ID item = n" using assms(2) findNewsByID_Some by blast
  with range have news: "decodeNewsItem parse (Encoded (encodeNewsItem item)) = Some item"
    by (simp add: decode_encode_NewsItem)
  have na: "news_getNewsByIDHandler zone clock (URLParam_id r) = write_json (encodeNewsItem item)"
    using assms(1,2) by (simp add: news_getNewsByIDHandler_def)
  have "filter (\<lambda>row. row_news_id row = n) (rows d) = []"
    using assms(5) by (induction "rows d" arbitrary: d) (auto simp: list_all_iff filter_empty_conv)
  then have sel: "selectComments d n = []" by (simp add: selectComments_def)
  have cs: "getCommentsHandler flt d (itoa n) =
      write_json (encodeResponse \<lparr>Status = ''success'', Data = Some JNull, Error = [], Pagination = None\<rparr>)"
    using assms(6) sel range
    by (simp add: getCommentsHandler_def itoa_not_Nil Atoi_itoa encodeComments_def)
  have dec: "decodeResponse parse (rsp_body (getCommentsHandler flt d (itoa n))) =
      Some \<lparr>Status = ''success'', Data = None, Error = [], Pagination = None\<rparr>"
    by (simp add: cs write_json_def decodeResponse_success)
  have "fst (GET_news_id config parse fresh net r w) =
           write_json (encodeResponse
             \<lparr>Status = ''success'',
              Data = Some (JObj [(''comments'', JNull), (''news'', encodeNewsItem item),
                                 (''request_id'', JStr (requestIDMiddleware fresh (Header r)))]),
              Error = [], Pagination = None\<rparr>)"
    using assms(1,3,4) news dec
    by (simp add: GET_news_id_def gateway_getNewsByIDHandler_def client_Get_def client_Do_def
          na write_json_def)
  then show ?thesis
    by (simp add: write_json_def payload_def encodeResponse_def)
qed

theorem empty_comment_list_is_null_witness:
  "rsp_status (fst (GET_news_id defaultConfig (\<lambda>s. None) ''fresh-id''
       (deployment (\<lambda>s. None) (\<lambda>s. s) (\<lambda>t. 0) 0 (\<lambda>c. False) ''2024-01-01T00:00:00Z'')
       (mk_request [] ''1'' (Plain [])) empty_db)) = 200
   \<and> Option.bind (payload (fst (GET_news_id defaultConfig (\<lambda>s. None) ''fresh-id''
       (deployment (\<lambda>s. None) (\<lambda>s. s) (\<lambda>t. 0) 0 (\<lambda>c. False) ''2024-01-01T00:00:00Z'')
       (mk_request [] ''1'' (Plain [])) empty_db))) (jmember ''comments'') = Some JNull"
proof -
  let ?net = "deployment (\<lambda>s. None) (\<lambda>s. s) (\<lambda>t. 0) 0 (\<lambda>c. False) ''2024-01-01T00:00:00Z''"
  let ?r = "mk_request [] ''1'' (Plain [])"
  let ?item = "\<lparr>ID = 1, Title = title1, Content = content1, Date = formatTime (\<lambda>t. 0) 0\<rparr>"
  have h1: "Atoi (URLParam_id ?r) = Some 1"
    by (simp add: mk_request_def Atoi_def isDigit_def digit_val_def in_int64_def)
  have h2: "findNewsByID (\<lambda>t. 0) 0 1 = Some ?item"
    by (simp add: findNewsByID_def mockNews_def)
  have h3: "?net (get_request (NewsAggregatorURL defaultConfig @ ''/news/'' @ URLParam_id ?r)) empty_db =
           (Some (news_getNewsByIDHandler (\<lambda>t. 0) 0 (URLParam_id ?r)), empty_db)"
    by (simp add: deployment_def get_request_def defaultConfig_def mk_request_def stripPrefix_def)
  have i1: "itoa 1 = ''1''"
    by (simp add: itoa_def digits.simps digit_char_def char_of_eq_iff)
  have h4: "?net (get_request (CommentServiceURL defaultConfig @ ''/comments?news_id='' @ itoa 1)) empty_db =
           (Some (getCommentsHandler (\<lambda>c. False) empty_db (itoa 1)), empty_db)"
    by (simp add: i1 deployment_def get_request_def defaultConfig_def stripPrefix_def)
  have h5: "list_all (\<lambda>row. row_news_id row \<noteq> 1) (rows empty_db)"
    by (simp add: empty_db_def)
  have h6: "\<not> (\<lambda>c. False) SelectComments" by simp
  from empty_comment_list_is_null
         [where net = ?net and config = defaultConfig and w = empty_db and wa = empty_db
            and wb = empty_db and zone = "\<lambda>t. 0" and clock = 0 and flt = "\<lambda>c. False"
            and d = empty_db and n = 1,
          OF h1 h2 h3 h4 h5 h6]
  show ?thesis by (rule conjunct2)
qed

subsection \<open>Facts about \<open>float64\<close> and the generic re-encoding\<close>







subsection \<open>Facts about the comment table\<close>






subsection \<open>A successful submission\<close>







subsection \<open>The shape of a detail response\<close>




lemma detail_trace:
  assumes "Atoi newsID = Some n"
    and "findNewsByID zone clock n = Some item"
    and "net (get_request (NewsAggregatorURL config @ ''/news/'' @ newsID)) w =
           (Some (news_getNewsByIDHandler zone clock newsID), wa)"
    and "net (get_request (CommentServiceURL config @ ''/comments?news_id='' @ itoa n)) wa = (x, wb)"
  shows "snd (gateway_getNewsByIDHandler config parse net rid newsID ([], w)) =
           ([get_request (NewsAggregatorURL config @ ''/news/'' @ newsID),
             get_request (CommentServiceURL config @ ''/comments?news_id='' @ itoa n)], wb)"
proof -
  have "ID item = n" using assms(2) findNewsByID_Some by blast
  then have "decodeNewsItem parse (Encoded (encodeNewsItem item)) = Some item"
    using Atoi_in_range[OF assms(1)] by (simp add: decode_encode_NewsItem)
  moreover have "news_getNewsByIDHandler zone clock newsID = write_json (encodeNewsItem item)"
    using assms(1,2) by (simp add: news_getNewsByIDHandler_def)
  ultimately show ?thesis
    using assms(1,3,4)
    by (cases x)
       (simp_all add: gateway_getNewsByIDHandler_def client_Get_def client_Do_def write_json_def
          split: option.splits)
qed



subsection \<open>Repeating a detail request\<close>



lemma itoa_1: "itoa 1 = ''1''"
  by (simp add: itoa_def digits.simps digit_char_def char_of_eq_iff)

lemma Atoi_1: "Atoi ''1'' = Some 1"
  by (simp add: Atoi_def isDigit_def digit_val_def in_int64_def)

lemma deployment_news:
  "deployment parse ulower zone clock flt now
     (get_request (NewsAggregatorURL defaultConfig @ ''/news/'' @ i)) d =
     (Some (news_getNewsByIDHandler zone clock i), d)"
  by (simp add: deployment_def get_request_def defaultConfig_def stripPrefix_def)

lemma deployment_comments_1:
  "deployment parse ulower zone clock flt now
     (get_request (CommentServiceURL defaultConfig @ ''/comments?news_id='' @ itoa 1)) d =
     (Some (getCommentsHandler flt d (itoa 1)), d)"
  by (simp add: itoa_1 deployment_def get_request_def defaultConfig_def stripPrefix_def)





subsection \<open>The correlation identifier\<close>

lemma submission_calls_carry_request_id:
  "Header_Get (OutHeader (censorReq config rid req)) ''X-Request-ID'' = rid"
  "Header_Get (OutHeader (commentReq config rid req)) ''X-Request-ID'' = rid"
  by (simp_all add: censorReq_def commentReq_def header_defs)

text \<open>
  C3. The specification has the correlation identifier on every downstream call. The
  two calls of \<open>createCommentHandler\<close> set the \<open>X-Request-ID\<close> header
  (\<open>submission_calls_carry_request_id\<close>) and the merged payload of \<open>GET /news/{id}\<close>
  carries the identifier, but the two fetches of \<open>getNewsByIDHandler\<close> go out through
  \<open>client.Get\<close> without it. For \<open>GET /news/1\<close> with the inbound header
  \<open>X-Request-ID: abc\<close> the request id is \<open>abc\<close>, the gateway issues the news fetch and
  the comment fetch, and neither carries an \<open>X-Request-ID\<close> header.
\<close>

theorem detail_fetches_carry_no_request_id:
  "requestIDMiddleware fresh [(''X-Request-Id'', ''abc'')] = ''abc''
   \<and> snd (GET_news_id defaultConfig parse fresh
            (deployment parse ulower zone clock flt now)
            (mk_request [(''X-Request-Id'', ''abc'')] ''1'' (Plain [])) d) =
       ([get_request ''http://news-aggregator:8083/news/1'',
         get_request ''http://comment-service:8081/comments?news_id=1''], d)
   \<and> map (\<lambda>rq. Header_Get (OutHeader rq) ''X-Request-ID'')
         [get_request ''http://news-aggregator:8083/news/1'',
          get_request ''http://comment-service:8081/comments?news_id=1''] = [[], []]"
proof -
  have item: "findNewsByID zone clock 1 =
      Some \<lparr>ID = 1, Title = title1, Content = content1, Date = formatTime zone clock\<rparr>"
    by (simp add: findNewsByID_def mockNews_def)
  have rid: "requestIDMiddleware fresh [(''X-Request-Id'', ''abc'')] = ''abc''"
    by (simp add: header_defs)
  have tr: "snd (GET_news_id defaultConfig parse fresh
            (deployment parse ulower zone clock flt now)
            (mk_request [(''X-Request-Id'', ''abc'')] ''1'' (Plain [])) d) =
       ([get_request (NewsAggregatorURL defaultConfig @ ''/news/'' @ ''1''),
         get_request (CommentServiceURL defaultConfig @ ''/comments?news_id='' @ itoa 1)], d)"
    unfolding GET_news_id_def mk_request_def request.simps
    by (rule detail_trace
          [where net = "deployment parse ulower zone clock flt now" and wa = d and wb = d,
           OF Atoi_1 item deployment_news deployment_comments_1])
  have hd: "Header_Get (OutHeader (get_request u)) ''X-Request-ID'' = []" for u
    by (simp add: get_request_def Header_Get_def)
  show ?thesis
    using tr by (simp add: rid hd itoa_1 defaultConfig_def)
qed

subsection \<open>The parent reference\<close>

text \<open>
  C9. The specification has an explicit \<open>parent_id\<close> of 0 handled like an omitted one:
  no parent, stored with a null parent reference. The insert of \<open>createCommentHandler\<close>
  does bind \<open>NULL\<close> for a parent that is not positive, but the existence check before it
  runs for every parent that is present, and no comment has the id 0. On the empty
  table the submission with \<open>parent_id: 0\<close> is answered 400 and nothing is stored, where
  the same submission without \<open>parent_id\<close> is stored with a null parent; through the
  gateway the first ends as HTTP 500.
\<close>

theorem explicit_zero_parent_is_rejected:
  "comments_createCommentHandler parse (\<lambda>c. False) now empty_db zero_parent_body =
     (http_Error ''Parent comment does not exist'' 400, empty_db)
   \<and> comments_createCommentHandler parse (\<lambda>c. False) now empty_db hello_body =
     (write_json (encodeResponse
        \<lparr>Status = ''success'',
         Data = Some (encodeComment
           \<lparr>cID = 1, cNewsID = 1, cParentID = None, cText = ''hello'', cCreatedAt = now\<rparr>),
         Error = [], Pagination = None\<rparr>),
      \<lparr>rows = [\<lparr>row_id = 1, row_news_id = 1, row_parent_id = None, row_text = ''hello'',
                 row_created_at = now\<rparr>],
       seq = 1\<rparr>)
   \<and> POST_comment defaultConfig parse fresh
       (deployment parse (\<lambda>s. s) zone clock (\<lambda>c. False) now)
       (mk_request h i zero_parent_body) empty_db =
     (http_Error ''Failed to save comment'' 500,
      ([censorReq defaultConfig (requestIDMiddleware fresh h)
          \<lparr>NewsID = 1, ParentID = Some 0, Text = ''hello''\<rparr>,
        commentReq defaultConfig (requestIDMiddleware fresh h)
          \<lparr>NewsID = 1, ParentID = Some 0, Text = ''hello''\<rparr>],
       empty_db))"
proof -
  let ?req = "\<lparr>NewsID = 1, ParentID = Some 0, Text = ''hello''\<rparr>"
  have a: "comments_createCommentHandler parse (\<lambda>c. False) now empty_db zero_parent_body =
     (http_Error ''Parent comment does not exist'' 400, empty_db)"
    by (simp add: comments_createCommentHandler_def zero_parent_body_def decode_defs empty_db_def)
  have b: "comments_createCommentHandler parse (\<lambda>c. False) now empty_db hello_body =
     (write_json (encodeResponse
        \<lparr>Status = ''success'',
         Data = Some (encodeComment
           \<lparr>cID = 1, cNewsID = 1, cParentID = None, cText = ''hello'', cCreatedAt = now\<rparr>),
         Error = [], Pagination = None\<rparr>),
      \<lparr>rows = [\<lparr>row_id = 1, row_news_id = 1, row_parent_id = None, row_text = ''hello'',
                 row_created_at = now\<rparr>],
       seq = 1\<rparr>)"
    by (simp add: comments_createCommentHandler_def hello_body_def decode_defs empty_db_def
          insert_parentID_def next_id_def insertComment_def scanComment_def Let_def)
  have dec: "decodeCommentRequest parse zero_parent_body = Some ?req"
    by (simp add: decode_defs zero_parent_body_def)
  have enc: "Encoded (encodeCommentRequest ?req) = zero_parent_body"
    by (simp add: encodeCommentRequest_def zero_parent_body_def)
  have censor: "deployment parse (\<lambda>s. s) zone clock (\<lambda>c. False) now
      (censorReq defaultConfig rid ?req) empty_db =
      (Some (write_json (encodeResponse
         \<lparr>Status = ''success'', Data = Some (JObj [(''message'', JStr ''Text is clean'')]),
          Error = [], Pagination = None\<rparr>)), empty_db)" for rid
    by (simp add: deployment_def censorReq_def defaultConfig_def decode_defs censor_defs)
  have store: "deployment parse (\<lambda>s. s) zone clock (\<lambda>c. False) now
      (commentReq defaultConfig rid ?req) empty_db =
      (Some (http_Error ''Parent comment does not exist'' 400), empty_db)" for rid
    by (simp add: deployment_def commentReq_def defaultConfig_def enc a)
  have c: "POST_comment defaultConfig parse fresh
       (deployment parse (\<lambda>s. s) zone clock (\<lambda>c. False) now)
       (mk_request h i zero_parent_body) empty_db =
     (http_Error ''Failed to save comment'' 500,
      ([censorReq defaultConfig (requestIDMiddleware fresh h) ?req,
        commentReq defaultConfig (requestIDMiddleware fresh h) ?req],
       empty_db))"
    by (simp add: POST_comment_def mk_request_def gateway_createCommentHandler_def dec
          client_Do_def censor store)
       (simp add: write_json_def http_Error_def)
  from a b c show ?thesis by simp
qed

subsection \<open>How failures are reported\<close>











end
